theory Spec2Isabelle
  imports Main "HOL-Library.AList"
begin

section \<open>The Processor of src/lib/index.ts\<close>

text \<open>
  The theory embeds the class \<^verbatim>\<open>Processor\<close> of \<^verbatim>\<open>src/lib/index.ts\<close>.
  The class imports its collaborators from other modules (\<^verbatim>\<open>../utils/style\<close>,
  \<^verbatim>\<open>../utils/tools\<close>, \<^verbatim>\<open>./extract\<close>, \<^verbatim>\<open>./variants\<close>, the class parser, ...).
  What the Processor calls in those modules is a field of the record \<open>collab\<close>; every
  definition takes the record as its first argument and every theorem holds for all
  collaborators.

  JavaScript objects are association lists in insertion order (\<open>AList.update\<close> keeps the
  place of a key that is already there and appends a new one, as property assignment
  does for keys that are not array indices). Values are immutable here, so \<^verbatim>\<open>deepCopy\<close>
  is the identity and a method that updates its receiver returns the updated value.
\<close>

subsection \<open>Styles\<close>

datatype style_class = StyleC | KeyframesC | ContainerC

record property =
  pr_name :: "string list"
  pr_value :: "string option"
  pr_comment :: "string option"
  pr_important :: bool

record meta =
  mt_type :: string
  mt_group :: string
  mt_order :: int
  mt_variants :: "string list option"

text \<open>
  A \<^verbatim>\<open>Style\<close> object: the class it was built with (what \<^verbatim>\<open>instanceof\<close> tests), the
  fields the Processor reads and writes, and \<open>st_wrap\<close>, the private selector wrappers
  of the class that only its own methods touch.
\<close>

record style =
  st_class :: style_class
  st_selector :: "string option"
  st_important :: bool
  st_property :: "property list"
  st_atRules :: "string list option"
  st_meta :: meta
  st_wrap :: "string list"

text \<open>\<^verbatim>\<open>Output = Style | Style[] | undefined\<close>; undefined is \<open>None\<close> of \<open>Output option\<close>.\<close>

datatype Output = Single style | Many "style list"

type_synonym StyleArrayObject = "(string \<times> style list) list"

type_synonym ResolvedVariants = "(string \<times> style) list"

subsection \<open>JavaScript values of the configuration\<close>

text \<open>
  A generator handed to \<^verbatim>\<open>addDynamic\<close>: given the default important flag of the
  \<^verbatim>\<open>Style\<close>, \<^verbatim>\<open>Property\<close> and \<^verbatim>\<open>Keyframes\<close> factories it receives and the utility handle,
  it returns an \<^verbatim>\<open>Output\<close>.
\<close>

type_synonym UtilityGenerator = "bool \<Rightarrow> string \<Rightarrow> Output option"

record plugin_options =
  po_layer :: "string option"
  po_respectImportant :: bool

datatype PluginUtilOptions = OptVariants "string list" | OptObject plugin_options

text \<open>
  What a plugin handler does with the \<^verbatim>\<open>pluginUtils\<close> it is given: a sequence of calls.
  A variant generator is given the separator (the rest of its helper bag is the fixed
  \<^verbatim>\<open>variantUtils\<close>) and returns the wrapper style. \<^verbatim>\<open>addUtilities\<close>, \<^verbatim>\<open>addComponents\<close> and
  \<^verbatim>\<open>addBase\<close> reach the Processor's state only through \<^verbatim>\<open>_addPluginCache\<close>; such a call
  is the list of cache entries it files.
\<close>

datatype AddPluginType = TStatic | TUtilities | TComponents | TPreflights | TShortcuts

datatype plugin_call =
    CallAddVariant string "string option \<Rightarrow> style"
  | CallAddDynamic string UtilityGenerator "PluginUtilOptions option"
  | CallAddStyles "(AddPluginType \<times> string \<times> style list) list"

text \<open>
  Values found in a configuration object. Functions are closures: \<open>JFun n\<close> is the n-th
  function written by the user (what it returns when it is called as a theme function
  is the collaborator \<open>theme_fn\<close>), \<open>JRedFn\<close> and \<open>JRedObj\<close> are the two closures that
  \<^verbatim>\<open>_reduceFunction\<close> builds, \<open>JHandler\<close> is a plugin handler and \<open>JOptionsFn\<close> a plugin
  function marked \<^verbatim>\<open>__isOptionsFunction\<close>, with the plugin it returns for the options
  \<^verbatim>\<open>{}\<close>.

  The values that the Processor dereferences are objects by their TypeScript types
  (\<^verbatim>\<open>Config\<close>, \<^verbatim>\<open>Theme\<close>, \<^verbatim>\<open>PluginOutput\<close>); reading a property of anything else gives
  undefined here, also where JavaScript raises a TypeError for null and undefined. A
  user function is total here; one that throws is outside the model.
\<close>

datatype jsval =
    JUndef
  | JNull
  | JBool bool
  | JNum int
  | JStr string
  | JRegExp string
  | JArr "jsval list"
  | JObj "(string \<times> jsval) list"
  | JFun nat
  | JRedFn jsval jsval
  | JRedObj jsval jsval
  | JHandler "plugin_call list"
  | JOptionsFn jsval

fun truthy :: "jsval \<Rightarrow> bool" where
  "truthy JUndef = False"
| "truthy JNull = False"
| "truthy (JBool b) = b"
| "truthy (JNum n) = (n \<noteq> 0)"
| "truthy (JStr s) = (s \<noteq> [])"
| "truthy _ = True"

fun nullish :: "jsval \<Rightarrow> bool" where
  "nullish JUndef = True"
| "nullish JNull = True"
| "nullish _ = False"

text \<open>\<^verbatim>\<open>a ?? b\<close>\<close>

definition nullish_or :: "jsval \<Rightarrow> jsval \<Rightarrow> jsval" where
  "nullish_or a b = (if nullish a then b else a)"

fun is_function :: "jsval \<Rightarrow> bool" where
  "is_function (JFun _) = True"
| "is_function (JRedFn _ _) = True"
| "is_function (JRedObj _ _) = True"
| "is_function (JHandler _) = True"
| "is_function (JOptionsFn _) = True"
| "is_function _ = False"

subsection \<open>Property lookup\<close>

text \<open>
  The tables of the Processor (\<^verbatim>\<open>_variants\<close>, the tables of \<^verbatim>\<open>_plugin\<close>) and the objects of a
  configuration are plain objects: \<^verbatim>\<open>key in obj\<close> and \<^verbatim>\<open>obj[key]\<close> also find the members
  that a plain object inherits from \<^verbatim>\<open>Object.prototype\<close>. A lookup finds an own property,
  an inherited member, or nothing.
\<close>

definition Object_prototype_keys :: "string list" where
  "Object_prototype_keys =
     [''constructor'', ''__defineGetter__'', ''__defineSetter__'', ''hasOwnProperty'',
      ''__lookupGetter__'', ''__lookupSetter__'', ''isPrototypeOf'', ''propertyIsEnumerable'',
      ''toString'', ''valueOf'', ''__proto__'', ''toLocaleString'']"

datatype 'a slot = Own 'a | Inherited | Absent

text \<open>\<^verbatim>\<open>obj[key]\<close>\<close>

definition property_lookup :: "(string \<times> 'a) list \<Rightarrow> string \<Rightarrow> 'a slot" where
  "property_lookup obj key =
     (case map_of obj key of
        Some v \<Rightarrow> Own v
      | None \<Rightarrow> if key \<in> set Object_prototype_keys then Inherited else Absent)"

text \<open>\<^verbatim>\<open>key in obj\<close>\<close>

definition in_object :: "string \<Rightarrow> (string \<times> 'a) list \<Rightarrow> bool" where
  "in_object key obj = (key \<in> set (map fst obj) \<or> key \<in> set Object_prototype_keys)"

text \<open>\<^verbatim>\<open>{ ...a, ...b }\<close> on the entries of two objects.\<close>

definition obj_spread :: "('k \<times> 'v) list \<Rightarrow> ('k \<times> 'v) list \<Rightarrow> ('k \<times> 'v) list" where
  "obj_spread a b = fold (\<lambda>kv. AList.update (fst kv) (snd kv)) b a"

text \<open>
  \<^verbatim>\<open>obj.name\<close> for a name that is written in the source (\<^verbatim>\<open>theme\<close>, \<^verbatim>\<open>extend\<close>, \<^verbatim>\<open>plugins\<close>,
  \<^verbatim>\<open>presets\<close>, \<^verbatim>\<open>exclude\<close>, \<^verbatim>\<open>important\<close>, \<^verbatim>\<open>handler\<close>, \<^verbatim>\<open>config\<close>, \<^verbatim>\<open>corePlugins\<close>), none of
  which is a member of \<^verbatim>\<open>Object.prototype\<close>: the own property, or undefined. The lookup
  under a key that is data is \<open>jread\<close> below.
\<close>

fun jget :: "jsval \<Rightarrow> string \<Rightarrow> jsval" where
  "jget (JObj kvs) k = (case map_of kvs k of None \<Rightarrow> JUndef | Some v \<Rightarrow> v)"
| "jget _ k = JUndef"

text \<open>\<^verbatim>\<open>key in obj\<close> for an object of the configuration.\<close>

fun jhas :: "jsval \<Rightarrow> string \<Rightarrow> bool" where
  "jhas (JObj kvs) k = in_object k kvs"
| "jhas _ k = False"

datatype js_error = TypeError | RangeError | SyntaxError

subsection \<open>The class-name syntax tree\<close>

datatype element_type = TUtility | TGroup | TAlias | TFunc

datatype content = CUndef | CStr string | CList "element list"
and element = Element (raw: string) (etype: element_type) (variants: "string list")
    (content: content) (important: bool)

subsection \<open>The state of a Processor\<close>

record Cache =
  c_html :: "string list"
  c_classes :: "string list"
  c_variants :: "string list"
  c_utilities :: "string list"

text \<open>
  An entry of \<^verbatim>\<open>_plugin.dynamic\<close> is one of the two closures \<^verbatim>\<open>addDynamic\<close> stores: the
  wrapper of a first registration (generator, default important flag, layer, order), or
  the closure of a re-registration, which reads \<^verbatim>\<open>this._plugin.dynamic[key]\<close> when it is
  called (key, generator, default important flag).
\<close>

datatype dynamic_entry =
    DynFirst UtilityGenerator bool string int
  | DynChained string UtilityGenerator bool

record Plugin =
  pl_core :: "(string \<times> jsval) list option"
  pl_static :: StyleArrayObject
  pl_dynamic :: "(string \<times> dynamic_entry) list"
  pl_utilities :: StyleArrayObject
  pl_components :: StyleArrayObject
  pl_preflights :: StyleArrayObject
  pl_shortcuts :: StyleArrayObject
  pl_alias :: "(string \<times> element list) list"

text \<open>
  \<^verbatim>\<open>_theme\<close> is not a field of its own: every assignment to \<^verbatim>\<open>_config\<close> is followed by
  \<^verbatim>\<open>this._theme = this._config.theme\<close> before the theme is read, so the theme is the
  \<^verbatim>\<open>theme\<close> property of \<open>p_config\<close>. An entry of \<^verbatim>\<open>_variants\<close> is the style its
  zero-argument generator returns.
\<close>

record Processor =
  p_config :: jsval
  p_variants :: ResolvedVariants
  p_cache :: Cache
  p_plugin :: Plugin

subsection \<open>Collaborators\<close>

text \<open>
  \<^verbatim>\<open>extract(this, className, addComment, prefix)\<close> is given the Processor and may throw
  (a registered generator may). \<^verbatim>\<open>RegExp_strip_prefix\<close> is
  \<^verbatim>\<open>className.replace(new RegExp(`^${prefix}`), '')\<close>: the SyntaxError of a prefix that is no
  pattern, or the string without the match.

  Where a lookup finds a member inherited from \<^verbatim>\<open>Object.prototype\<close> in place of a value of
  the table, what the next step of the Processor makes of the member is left to the
  collaborators: \<open>inherited_variant k\<close> is \<^verbatim>\<open>this._variants[k]()\<close>, the exception of that call
  or what it returns as the Style that the following \<^verbatim>\<open>extend\<close> is given;
  \<open>inherited_generator k u\<close> is the member called on a utility in place of a generator;
  \<open>inherited_styles k\<close> is what \<^verbatim>\<open>styleSheet.add(deepCopy(member))\<close> is given; and
  \<open>inherited_value k\<close> is the member as a value of a theme.
\<close>

record stylesheet =
  children :: "style list"
  prefixer :: bool

record collab =
  hash :: "string \<Rightarrow> string"
  ClassParser_parse :: "string \<Rightarrow> jsval \<Rightarrow> string list \<Rightarrow> element list"
  extract_lib :: "Processor \<Rightarrow> string \<Rightarrow> bool \<Rightarrow> jsval \<Rightarrow> js_error + Output option"
  testRegexr :: "string \<Rightarrow> jsval \<Rightarrow> bool"
  cssEscape :: "string \<Rightarrow> string"
  getNestedValue :: "jsval \<Rightarrow> string \<Rightarrow> jsval"
  combineConfig :: "jsval \<Rightarrow> jsval \<Rightarrow> jsval"
  resolveVariants_lib :: "jsval \<Rightarrow> ResolvedVariants \<times> ResolvedVariants \<times> ResolvedVariants"
  theme_fn :: "jsval \<Rightarrow> jsval \<Rightarrow> jsval"
  plugin_lib :: "jsval \<Rightarrow> jsval"
  ToPropertyKey :: "jsval \<Rightarrow> string"
  new_Style :: style
  new_Container :: style
  new_StyleSheet :: stylesheet
  Style_extend :: "style \<Rightarrow> style \<Rightarrow> style \<times> style"
  Style_parent :: "style \<Rightarrow> string \<Rightarrow> style"
  Style_updateMeta :: "style \<Rightarrow> string \<Rightarrow> string \<Rightarrow> int \<Rightarrow> style"
  Style_generate :: "string \<Rightarrow> jsval \<Rightarrow> style list"
  StyleSheet_sort :: "stylesheet \<Rightarrow> stylesheet"
  StyleSheet_sortby_sortGroup :: "stylesheet \<Rightarrow> stylesheet"
  StyleSheet_combine :: "stylesheet \<Rightarrow> stylesheet"
  StyleSheet_add :: "stylesheet \<Rightarrow> Output option \<Rightarrow> stylesheet"
  RegExp_strip_prefix :: "jsval \<Rightarrow> string \<Rightarrow> js_error + string"
  inherited_variant :: "string \<Rightarrow> js_error + style"
  inherited_generator :: "string \<Rightarrow> string \<Rightarrow> js_error + Output option"
  inherited_styles :: "string \<Rightarrow> Output option"
  inherited_value :: "string \<Rightarrow> jsval"
  layerOrder :: "string \<Rightarrow> int"
  pluginOrder_keys :: "string list"

subsection \<open>config, wrapWithVariants, markAsImportant\<close>

text \<open>\<^verbatim>\<open>Object.keys(core).filter(i => core[i])\<close>\<close>

definition enabled_core :: "(string \<times> jsval) list \<Rightarrow> string list" where
  "enabled_core core = map fst (filter (\<lambda>kv. truthy (snd kv)) core)"

text \<open>\<^verbatim>\<open>Object.keys(pluginOrder).slice(Object.keys(pluginOrder).length/2)\<close>\<close>

definition default_core :: "collab \<Rightarrow> string list" where
  "default_core E = drop (length (pluginOrder_keys E) div 2) (pluginOrder_keys E)"

definition config :: "collab \<Rightarrow> Processor \<Rightarrow> string \<Rightarrow> jsval \<Rightarrow> jsval" where
  "config E s path defaultValue =
     (if path = ''corePlugins'' then
        (case pl_core (p_plugin s) of
           Some core \<Rightarrow> JArr (map JStr (enabled_core core))
         | None \<Rightarrow> JArr (map JStr (default_core E)))
      else nullish_or (getNestedValue E (p_config s) path) defaultValue)"

text \<open>
  Modelled from the spec: the getter \<^verbatim>\<open>isAtrule\<close> of the Style class (not in src/) is
  true when the style carries a non-empty list of wrapping at-rules; \<open>first_atRule\<close>
  is then \<^verbatim>\<open>atRules[0]\<close>.
\<close>

definition first_atRule :: "style \<Rightarrow> string option" where
  "first_atRule s = (case st_atRules s of Some (r # rs) \<Rightarrow> Some r | _ \<Rightarrow> None)"

text \<open>
  \<^verbatim>\<open>this._variants[i]()\<close>: the style that the generator of an own entry returns; calling
  undefined, for a name that the table does not have at all, is a TypeError.
\<close>

definition call_variant :: "collab \<Rightarrow> ResolvedVariants \<Rightarrow> string \<Rightarrow> js_error + style" where
  "call_variant E V i =
     (case property_lookup V i of
        Own g \<Rightarrow> Inr g
      | Inherited \<Rightarrow> inherited_variant E i
      | Absent \<Rightarrow> Inl TypeError)"

text \<open>\<^verbatim>\<open>variants.map(i => this._variants[i]())\<close>\<close>

fun call_variants :: "collab \<Rightarrow> ResolvedVariants \<Rightarrow> string list \<Rightarrow> js_error + style list" where
  "call_variants E V [] = Inr []"
| "call_variants E V (i # rest) =
     (case call_variant E V i of
        Inl e \<Rightarrow> Inl e
      | Inr g \<Rightarrow>
          (case call_variants E V rest of
             Inl e \<Rightarrow> Inl e
           | Inr gs \<Rightarrow> Inr (g # gs)))"

text \<open>
  The callback of \<^verbatim>\<open>reduce\<close>: \<open>Style_extend\<close> gives the receiver after the call and the
  returned style; \<^verbatim>\<open>previousValue.isAtrule\<close> is read after the call.
\<close>

definition wrap_step :: "collab \<Rightarrow> style \<times> string list \<Rightarrow> style \<Rightarrow> style \<times> string list" where
  "wrap_step E acc currentValue =
     (case acc of (previousValue, atrules) \<Rightarrow>
        (case Style_extend E previousValue currentValue of (previousValue', out) \<Rightarrow>
           (out,
            (case first_atRule previousValue' of
               Some r \<Rightarrow> atrules @ [r]
             | None \<Rightarrow> atrules))))"

text \<open>
  The body of the callback of \<^verbatim>\<open>styles.map\<close> for a style that is not a Keyframes,
  given the styles \<open>gens\<close> returned by the variants' generators.
\<close>

definition wrapped_by :: "collab \<Rightarrow> style list \<Rightarrow> style \<Rightarrow> style" where
  "wrapped_by E gens style =
     (case foldl (wrap_step E) (new_Style E, []) gens of (reduced, atrules) \<Rightarrow>
        (let wrapped = snd (Style_extend E reduced style);
             wrapped = (if st_class style = ContainerC
                        then snd (Style_extend E (new_Container E) wrapped)
                        else wrapped);
             wrapped = (if atrules \<noteq> []
                        then wrapped\<lparr>st_meta := (st_meta wrapped)\<lparr>mt_variants := Some atrules\<rparr>\<rparr>
                        else wrapped)
         in wrapped))"

text \<open>The callback of \<^verbatim>\<open>styles.map\<close> in \<^verbatim>\<open>wrapWithVariants\<close>, for one style.\<close>

definition wrap_style :: "collab \<Rightarrow> ResolvedVariants \<Rightarrow> string list \<Rightarrow> style \<Rightarrow> js_error + style" where
  "wrap_style E V vs style =
     (if st_class style = KeyframesC then Inr style
      else
        (case call_variants E V vs of
           Inl e \<Rightarrow> Inl e
         | Inr gens \<Rightarrow> Inr (wrapped_by E gens style)))"

fun wrap_styles :: "collab \<Rightarrow> ResolvedVariants \<Rightarrow> string list \<Rightarrow> style list \<Rightarrow> js_error + style list" where
  "wrap_styles E V vs [] = Inr []"
| "wrap_styles E V vs (style # rest) =
     (case wrap_style E V vs style of
        Inl e \<Rightarrow> Inl e
      | Inr w \<Rightarrow>
          (case wrap_styles E V vs rest of
             Inl e \<Rightarrow> Inl e
           | Inr ws \<Rightarrow> Inr (w # ws)))"

fun toArray :: "Output \<Rightarrow> style list" where
  "toArray (Single s) = [s]"
| "toArray (Many ss) = ss"

text \<open>The result type is \<^verbatim>\<open>Style[] | undefined\<close>; no path of the method returns undefined.\<close>

definition wrapWithVariants ::
  "collab \<Rightarrow> Processor \<Rightarrow> string list \<Rightarrow> Output \<Rightarrow> js_error + style list option" where
  "wrapWithVariants E s vs styles =
     (if length vs = 0 then Inr (Some (toArray styles))
      else
        (case wrap_styles E (p_variants s) vs (toArray styles) of
           Inl e \<Rightarrow> Inl e
         | Inr ws \<Rightarrow> Inr (Some ws)))"

definition set_important :: "style \<Rightarrow> style" where
  "set_important style =
     style\<lparr>st_important := True,
           st_property := map (\<lambda>i. i\<lparr>pr_important := True\<rparr>) (st_property style)\<rparr>"

text \<open>\<^verbatim>\<open>force ? force : this.config('important', false)\<close>\<close>

definition effective_important :: "collab \<Rightarrow> Processor \<Rightarrow> jsval \<Rightarrow> jsval" where
  "effective_important E s force =
     (if truthy force then force else config E s ''important'' (JBool False))"

definition markAsImportant :: "collab \<Rightarrow> Processor \<Rightarrow> style \<Rightarrow> jsval \<Rightarrow> style" where
  "markAsImportant E s style force =
     (let important = effective_important E s force
      in if truthy important then
           (case important of
              JStr sel \<Rightarrow> Style_parent E style sel
            | _ \<Rightarrow> set_important style)
         else style)"

subsection \<open>Strings\<close>

text \<open>
  The white space of \<^verbatim>\<open>trim\<close> and of the class \<^verbatim>\<open>\s\<close>, for code units below 256: tab, line
  feed, vertical tab, form feed, carriage return, space and no-break space.
\<close>

definition is_space :: "char \<Rightarrow> bool" where
  "is_space c = (of_char c \<in> {9, 10, 11, 12, 13, 32, 160 :: nat})"

definition trim :: "string \<Rightarrow> string" where
  "trim str = rev (dropWhile is_space (rev (dropWhile is_space str)))"

text \<open>\<^verbatim>\<open>str.split(/\s+/g)\<close>: the pieces between the maximal runs of white space.\<close>

function split_spaces :: "string \<Rightarrow> string list" where
  "split_spaces [] = [[]]"
| "split_spaces (c # cs) =
     (if is_space c then [] # split_spaces (dropWhile is_space cs)
      else (case split_spaces cs of
              w # ws \<Rightarrow> (c # w) # ws
            | [] \<Rightarrow> [[c]]))"
  by pat_completeness auto
termination
  by (relation "measure length") (auto simp: length_dropWhile_le less_Suc_eq_le)

fun join :: "string \<Rightarrow> string list \<Rightarrow> string" where
  "join sep [] = []"
| "join sep [x] = x"
| "join sep (x # y # zs) = x @ sep @ join sep (y # zs)"

text \<open>\<^verbatim>\<open>classNames.trim().split(/\s+/g).join(' ')\<close>\<close>

definition normalize_classNames :: "string \<Rightarrow> string" where
  "normalize_classNames classNames = join '' '' (split_spaces (trim classNames))"

subsection \<open>compile\<close>

text \<open>The three accumulators of a compilation call.\<close>

record acc =
  success :: "string list"
  ignored :: "string list"
  styleSheet :: stylesheet

record compile_result =
  r_success :: "string list"
  r_ignored :: "string list"
  r_className :: "string option"
  r_styleSheet :: stylesheet

text \<open>
  The optional callback \<^verbatim>\<open>handleIgnored\<close> of the caller. Like the other functions of the
  user it is total here; one that throws is outside the model.
\<close>

type_synonym handler = "(string \<Rightarrow> Output option) option"

text \<open>\<^verbatim>\<open>_hIgnored\<close>, the same closure in \<^verbatim>\<open>interpret\<close> and \<^verbatim>\<open>compile\<close>.\<close>

definition hIgnored :: "collab \<Rightarrow> handler \<Rightarrow> string \<Rightarrow> acc \<Rightarrow> acc" where
  "hIgnored E handleIgnored className a =
     (let a1 = (case handleIgnored of
                  None \<Rightarrow> a
                | Some h \<Rightarrow>
                    (case h className of
                       Some style \<Rightarrow>
                         a\<lparr>styleSheet := StyleSheet_add E (styleSheet a) (Some style),
                           success := success a @ [className]\<rparr>
                     | None \<Rightarrow> a\<lparr>ignored := ignored a @ [className]\<rparr>))
      in a1\<lparr>ignored := ignored a1 @ [className]\<rparr>)"

text \<open>\<^verbatim>\<open>this._config.exclude && testRegexr(selector, this._config.exclude)\<close>\<close>

definition excluded :: "collab \<Rightarrow> Processor \<Rightarrow> string \<Rightarrow> bool" where
  "excluded E s selector =
     (truthy (jget (p_config s) ''exclude'') \<and>
      testRegexr E selector (jget (p_config s) ''exclude''))"

text \<open>
  \<^verbatim>\<open>variants[0] && selector in { ...this._plugin.utilities, ...this._plugin.components }\<close>
\<close>

definition special_selector :: "Processor \<Rightarrow> string list \<Rightarrow> string \<Rightarrow> bool" where
  "special_selector s vs selector =
     ((case vs of [] \<Rightarrow> False | v # _ \<Rightarrow> v \<noteq> []) \<and>
      in_object selector
        (obj_spread (obj_spread [] (pl_utilities (p_plugin s))) (pl_components (p_plugin s))))"

text \<open>
  \<^verbatim>\<open>styleSheet.add(deepCopy(this._plugin.utilities[selector]))\<close>: the styles of an own
  entry, undefined for a selector that only the components have.
\<close>

definition add_special :: "collab \<Rightarrow> Processor \<Rightarrow> string \<Rightarrow> acc \<Rightarrow> acc" where
  "add_special E s selector a =
     a\<lparr>success := success a @ [selector],
       styleSheet := StyleSheet_add E (styleSheet a)
         (case property_lookup (pl_utilities (p_plugin s)) selector of
            Own styles \<Rightarrow> Some (Many styles)
          | Inherited \<Rightarrow> inherited_styles E selector
          | Absent \<Rightarrow> None)\<rparr>"

text \<open>
  \<^verbatim>\<open>extract(this, className, addComment, prefix)\<close>. The lists \<^verbatim>\<open>html\<close>, \<^verbatim>\<open>classes\<close> and
  \<^verbatim>\<open>utilities\<close> of the private \<^verbatim>\<open>_cache\<close> are returned by no accessor of the class (the
  list \<^verbatim>\<open>variants\<close> is, by \<^verbatim>\<open>allVariant\<close>): the Processor that the extractor is given
  is the Processor without them.
\<close>

definition extract_view :: "Processor \<Rightarrow> Processor" where
  "extract_view s = s\<lparr>p_cache := (p_cache s)\<lparr>c_html := [], c_classes := [], c_utilities := []\<rparr>\<rparr>"

definition Processor_extract ::
  "collab \<Rightarrow> Processor \<Rightarrow> string \<Rightarrow> bool \<Rightarrow> jsval \<Rightarrow> js_error + Output option" where
  "Processor_extract E s className addComment prefix =
     extract_lib E (extract_view s) className addComment prefix"

definition removePrefix :: "collab \<Rightarrow> Processor \<Rightarrow> string \<Rightarrow> js_error + string" where
  "removePrefix E s className =
     (let prefix = config E s ''prefix'' JUndef
      in if truthy prefix then RegExp_strip_prefix E prefix className else Inr className)"

text \<open>The selector and importance given to the styles that \<^verbatim>\<open>extract\<close> returned, in compile.\<close>

definition prepare_c :: "collab \<Rightarrow> Processor \<Rightarrow> string \<Rightarrow> bool \<Rightarrow> Output \<Rightarrow> Output" where
  "prepare_c E s buildSelector imp result =
     (case result of
        Many styles \<Rightarrow>
          Many (map (\<lambda>i. if st_class i = KeyframesC
                          then i\<lparr>st_meta := (st_meta i)\<lparr>mt_order := 20\<rparr>\<rparr>
                          else markAsImportant E s (i\<lparr>st_selector := Some buildSelector\<rparr>) (JBool imp))
                    styles)
      | Single style \<Rightarrow>
          Single (markAsImportant E s (style\<lparr>st_selector := Some buildSelector\<rparr>) (JBool imp)))"

text \<open>What follows a successful \<^verbatim>\<open>extract\<close> in both modes: wrap, then file or ignore.\<close>

definition wrap_and_add ::
  "collab \<Rightarrow> Processor \<Rightarrow> handler \<Rightarrow> string list \<Rightarrow> string \<Rightarrow> Output \<Rightarrow> acc \<Rightarrow> js_error + acc" where
  "wrap_and_add E s handleIgnored vs selector result a =
     (case wrapWithVariants E s vs result of
        Inl e \<Rightarrow> Inl e
      | Inr (Some wrapped) \<Rightarrow>
          Inr (a\<lparr>success := success a @ [selector],
                 styleSheet := StyleSheet_add E (styleSheet a) (Some (Many wrapped))\<rparr>)
      | Inr None \<Rightarrow> Inr (hIgnored E handleIgnored selector a))"

text \<open>\<^verbatim>\<open>_gStyle\<close> of \<^verbatim>\<open>compile\<close>.\<close>

definition gStyle_c ::
  "collab \<Rightarrow> Processor \<Rightarrow> handler \<Rightarrow> bool \<Rightarrow> string \<Rightarrow>
   string \<Rightarrow> string list \<Rightarrow> string \<Rightarrow> bool \<Rightarrow> acc \<Rightarrow> js_error + acc" where
  "gStyle_c E s handleIgnored showComment buildSelector baseClass vs selector imp a =
     (if excluded E s selector then Inr (a\<lparr>ignored := ignored a @ [selector]\<rparr>)
      else if special_selector s vs selector then Inr (add_special E s selector a)
      else
        (case Processor_extract E s baseClass showComment JUndef of
           Inl e \<Rightarrow> Inl e
         | Inr (Some result) \<Rightarrow>
             wrap_and_add E s handleIgnored vs selector (prepare_c E s buildSelector imp result) a
         | Inr None \<Rightarrow> Inr (hIgnored E handleIgnored selector a)))"

text \<open>The string that \<^verbatim>\<open>[...variants, u.content].join(':')\<close> appends for the content.\<close>

fun content_string :: "content \<Rightarrow> string" where
  "content_string CUndef = []"
| "content_string (CStr c) = c"
| "content_string (CList us) = join '','' (map (\<lambda>u. ''[object Object]'') us)"

text \<open>
  \<^verbatim>\<open>_hGroup\<close> of \<^verbatim>\<open>compile\<close>: \<open>hGroup_items_c\<close> is the \<^verbatim>\<open>forEach\<close> over the content of a
  group whose variants are \<open>ov\<close> and whose important flag is \<open>oi\<close>; the recursive call
  for a nested group is unfolded in place.
\<close>

fun hGroup_item_c ::
  "collab \<Rightarrow> Processor \<Rightarrow> handler \<Rightarrow> bool \<Rightarrow> string \<Rightarrow>
   string list \<Rightarrow> bool \<Rightarrow> string list \<Rightarrow> element \<Rightarrow> acc \<Rightarrow> js_error + acc"
and hGroup_items_c ::
  "collab \<Rightarrow> Processor \<Rightarrow> handler \<Rightarrow> bool \<Rightarrow> string \<Rightarrow>
   string list \<Rightarrow> bool \<Rightarrow> string list \<Rightarrow> element list \<Rightarrow> acc \<Rightarrow> js_error + acc" where
  "hGroup_item_c E s hI sc bs ov oi pv (Element r TGroup uv (CList us) ui) a =
     hGroup_items_c E s hI sc bs uv ui ov us a"
| "hGroup_item_c E s hI sc bs ov oi pv (Element r TGroup uv c ui) a = Inr a"
| "hGroup_item_c E s hI sc bs ov oi pv (Element r t uv c ui) a =
     (let vs = pv @ ov @ uv;
          selector = join '':'' (vs @ [content_string c])
      in (case c of
            CStr c' \<Rightarrow>
              (case removePrefix E s c' of
                 Inl e \<Rightarrow> Inl e
               | Inr base \<Rightarrow> gStyle_c E s hI sc bs base vs selector (oi \<or> ui) a)
          | _ \<Rightarrow> Inr a))"
| "hGroup_items_c E s hI sc bs ov oi pv [] a = Inr a"
| "hGroup_items_c E s hI sc bs ov oi pv (u # us) a =
     (case hGroup_item_c E s hI sc bs ov oi pv u a of
        Inl e \<Rightarrow> Inl e
      | Inr a' \<Rightarrow> hGroup_items_c E s hI sc bs ov oi pv us a')"

definition hGroup_c ::
  "collab \<Rightarrow> Processor \<Rightarrow> handler \<Rightarrow> bool \<Rightarrow> string \<Rightarrow>
   element \<Rightarrow> string list \<Rightarrow> acc \<Rightarrow> js_error + acc" where
  "hGroup_c E s hI sc bs obj parentVariants a =
     (case content obj of
        CList us \<Rightarrow> hGroup_items_c E s hI sc bs (variants obj) (important obj) parentVariants us a
      | _ \<Rightarrow> Inr a)"

text \<open>The callback of \<^verbatim>\<open>ast.forEach\<close> in \<^verbatim>\<open>compile\<close>.\<close>

definition compile_obj ::
  "collab \<Rightarrow> Processor \<Rightarrow> handler \<Rightarrow> bool \<Rightarrow> string \<Rightarrow> element \<Rightarrow> acc \<Rightarrow> js_error + acc" where
  "compile_obj E s hI sc bs obj a =
     (if etype obj = TUtility then
        (case content obj of
           CList us \<Rightarrow> Inr a
         | CStr c \<Rightarrow>
             (if c \<noteq> [] then
                (case removePrefix E s c of
                   Inl e \<Rightarrow> Inl e
                 | Inr base \<Rightarrow>
                     gStyle_c E s hI sc bs base (variants obj) (raw obj) (important obj) a)
              else Inr a)
         | CUndef \<Rightarrow> Inr a)
      else if etype obj = TGroup then hGroup_c E s hI sc bs obj [] a
      else Inr (hIgnored E hI (raw obj) a))"

fun compile_ast ::
  "collab \<Rightarrow> Processor \<Rightarrow> handler \<Rightarrow> bool \<Rightarrow> string \<Rightarrow> element list \<Rightarrow> acc \<Rightarrow> js_error + acc" where
  "compile_ast E s hI sc bs [] a = Inr a"
| "compile_ast E s hI sc bs (obj # rest) a =
     (case compile_obj E s hI sc bs obj a of
        Inl e \<Rightarrow> Inl e
      | Inr a' \<Rightarrow> compile_ast E s hI sc bs rest a')"

text \<open>
  \<^verbatim>\<open>outputClassName ?? prefix + hash(classNames.trim().split(/\s+/g).join(' '))\<close>
\<close>

definition synthesized_className :: "collab \<Rightarrow> string \<Rightarrow> string \<Rightarrow> string option \<Rightarrow> string" where
  "synthesized_className E classNames prefix outputClassName =
     (case outputClassName of
        Some n \<Rightarrow> n
      | None \<Rightarrow> prefix @ hash E (normalize_classNames classNames))"

definition empty_acc :: "collab \<Rightarrow> acc" where
  "empty_acc E = \<lparr>success = [], ignored = [], styleSheet = new_StyleSheet E\<rparr>"

text \<open>\<^verbatim>\<open>if (!this.config('prefixer')) styleSheet.prefixer = false\<close>\<close>

definition apply_prefixer :: "collab \<Rightarrow> Processor \<Rightarrow> stylesheet \<Rightarrow> stylesheet" where
  "apply_prefixer E s sheet =
     (if \<not> truthy (config E s ''prefixer'' JUndef) then sheet\<lparr>prefixer := False\<rparr> else sheet)"

text \<open>
  \<^verbatim>\<open>compile\<close> returns its result and the Processor, whose cache of emitted class names it
  may have extended; a thrown exception is \<open>Inl\<close>.
\<close>

definition compile ::
  "collab \<Rightarrow> Processor \<Rightarrow> string \<Rightarrow> string \<Rightarrow> bool \<Rightarrow> bool \<Rightarrow> handler \<Rightarrow> string option \<Rightarrow>
   js_error + compile_result \<times> Processor" where
  "compile E s classNames prefix showComment ignoreGenerated handleIgnored outputClassName =
     (let ast = ClassParser_parse E classNames (config E s ''separator'' (JStr '':''))
                  (c_variants (p_cache s));
          className = synthesized_className E classNames prefix outputClassName
      in if ignoreGenerated \<and> className \<in> set (c_classes (p_cache s)) then
           Inr (\<lparr>r_success = [], r_ignored = [], r_className = Some className,
                  r_styleSheet = new_StyleSheet E\<rparr>, s)
         else
           (case compile_ast E s handleIgnored showComment (''.'' @ className) ast (empty_acc E) of
              Inl e \<Rightarrow> Inl e
            | Inr a \<Rightarrow>
                (let className' = (if length (success a) > 0 then Some className else None);
                     s' = (if ignoreGenerated \<and> className' \<noteq> None \<and> className \<noteq> []
                           then s\<lparr>p_cache := (p_cache s)\<lparr>c_classes := c_classes (p_cache s) @ [className]\<rparr>\<rparr>
                           else s)
                 in Inr (\<lparr>r_success = success a, r_ignored = ignored a, r_className = className',
                          r_styleSheet = StyleSheet_combine E
                            (StyleSheet_sortby_sortGroup E (apply_prefixer E s (styleSheet a)))\<rparr>,
                         s'))))"

subsection \<open>interpret\<close>

record interpret_result =
  i_success :: "string list"
  i_ignored :: "string list"
  i_styleSheet :: stylesheet

text \<open>The selector and importance given to the styles that \<^verbatim>\<open>extract\<close> returned, in interpret.\<close>

definition prepare_i :: "collab \<Rightarrow> Processor \<Rightarrow> string \<Rightarrow> bool \<Rightarrow> Output \<Rightarrow> Output" where
  "prepare_i E s escapedSelector imp result =
     (case result of
        Single style \<Rightarrow>
          Single (markAsImportant E s (style\<lparr>st_selector := Some escapedSelector\<rparr>) (JBool imp))
      | Many styles \<Rightarrow>
          Many (map (\<lambda>i. if st_class i = KeyframesC then i
                          else markAsImportant E s (i\<lparr>st_selector := Some escapedSelector\<rparr>) (JBool imp))
                    styles))"

text \<open>\<^verbatim>\<open>_gStyle\<close> of \<^verbatim>\<open>interpret\<close>.\<close>

definition gStyle_i ::
  "collab \<Rightarrow> Processor \<Rightarrow> handler \<Rightarrow>
   string \<Rightarrow> string list \<Rightarrow> string \<Rightarrow> bool \<Rightarrow> jsval \<Rightarrow> acc \<Rightarrow> js_error + acc" where
  "gStyle_i E s handleIgnored baseClass vs selector imp prefix a =
     (if excluded E s selector then Inr (a\<lparr>ignored := ignored a @ [selector]\<rparr>)
      else if special_selector s vs selector then Inr (add_special E s selector a)
      else
        (case Processor_extract E s baseClass False prefix of
           Inl e \<Rightarrow> Inl e
         | Inr (Some result) \<Rightarrow>
             wrap_and_add E s handleIgnored vs selector
               (prepare_i E s (''.'' @ cssEscape E selector) imp result) a
         | Inr None \<Rightarrow> Inr (hIgnored E handleIgnored selector a)))"

text \<open>The property key that \<^verbatim>\<open>(u.content as string) in this._plugin.alias\<close> looks up.\<close>

fun alias_key :: "content \<Rightarrow> string" where
  "alias_key CUndef = ''undefined''"
| "alias_key c = content_string c"

text \<open>
  \<^verbatim>\<open>u.type === 'alias' && (u.content as string) in this._plugin.alias\<close>, and what
  \<^verbatim>\<open>this._plugin.alias[u.content]\<close> then is: \<open>Absent\<close> when the test is false, the elements of
  an own entry, or a member inherited from \<^verbatim>\<open>Object.prototype\<close>.
\<close>

definition alias_of :: "Processor \<Rightarrow> element_type \<Rightarrow> content \<Rightarrow> element list slot" where
  "alias_of s t c =
     (if t = TAlias then property_lookup (pl_alias (p_plugin s)) (alias_key c) else Absent)"

text \<open>
  \<^verbatim>\<open>_eval\<close> inside \<^verbatim>\<open>_hGroup\<close> of \<^verbatim>\<open>interpret\<close>, for a group with variants \<open>ov\<close>, important
  flag \<open>oi\<close> and parent variants \<open>pv\<close>; the call of \<^verbatim>\<open>_hGroup\<close> for a nested group is
  unfolded in place. Expanding an alias is a nested call that is not on a smaller
  element: \<open>n\<close> is the depth of alias expansion that the call stack still allows, and
  running out of it is the RangeError of a stack overflow. An inherited member has no
  \<^verbatim>\<open>forEach\<close>, and calling undefined is a TypeError.
\<close>

fun eval_i ::
  "collab \<Rightarrow> Processor \<Rightarrow> handler \<Rightarrow> nat \<Rightarrow>
   string list \<Rightarrow> bool \<Rightarrow> string list \<Rightarrow> element \<Rightarrow> acc \<Rightarrow> js_error + acc"
and evals_i ::
  "collab \<Rightarrow> Processor \<Rightarrow> handler \<Rightarrow> nat \<Rightarrow>
   string list \<Rightarrow> bool \<Rightarrow> string list \<Rightarrow> element list \<Rightarrow> acc \<Rightarrow> js_error + acc" where
  "eval_i E s hI n ov oi pv (Element r TGroup uv (CList us) ui) a =
     evals_i E s hI n uv ui ov us a"
| "eval_i E s hI n ov oi pv (Element r TGroup uv c ui) a = Inr a"
| "eval_i E s hI n ov oi pv (Element r t uv c ui) a =
     (case alias_of s t c of
        Own als \<Rightarrow>
          (case n of
             0 \<Rightarrow> Inl RangeError
           | Suc m \<Rightarrow> evals_i E s hI m ov oi pv als a)
      | Inherited \<Rightarrow> Inl TypeError
      | Absent \<Rightarrow>
          (let vs = pv @ ov @ uv;
               imp = (oi \<or> ui);
               selector = (if imp then ''!'' else []) @ join '':'' (vs @ [content_string c])
           in (case c of
                 CStr base \<Rightarrow>
                   gStyle_i E s hI base vs selector imp (config E s ''prefix'' JUndef) a
               | _ \<Rightarrow> Inr a)))"
| "evals_i E s hI n ov oi pv [] a = Inr a"
| "evals_i E s hI n ov oi pv (u # us) a =
     (case eval_i E s hI n ov oi pv u a of
        Inl e \<Rightarrow> Inl e
      | Inr a' \<Rightarrow> evals_i E s hI n ov oi pv us a')"

definition hGroup_i ::
  "collab \<Rightarrow> Processor \<Rightarrow> handler \<Rightarrow> nat \<Rightarrow> element \<Rightarrow> string list \<Rightarrow> acc \<Rightarrow> js_error + acc" where
  "hGroup_i E s hI n obj parentVariants a =
     (case content obj of
        CList us \<Rightarrow> evals_i E s hI n (variants obj) (important obj) parentVariants us a
      | _ \<Rightarrow> Inr a)"

definition with_seen :: "string list \<Rightarrow> js_error + acc \<Rightarrow> js_error + acc \<times> string list" where
  "with_seen seen r = (case r of Inl e \<Rightarrow> Inl e | Inr a \<Rightarrow> Inr (a, seen))"

text \<open>
  \<^verbatim>\<open>_gAst\<close>: the accumulators and \<^verbatim>\<open>this._cache.utilities\<close> are threaded through the
  \<^verbatim>\<open>forEach\<close>. An alias is expanded by \<^verbatim>\<open>this._gAst(this._plugin.alias[obj.content])\<close>, a
  nested call at depth \<open>n\<close>; given an inherited member, the nested call raises the
  TypeError at its \<^verbatim>\<open>ast.forEach\<close>, which the member does not have.
\<close>

fun gAst ::
  "collab \<Rightarrow> Processor \<Rightarrow> handler \<Rightarrow> bool \<Rightarrow> nat \<Rightarrow>
   element list \<Rightarrow> acc \<times> string list \<Rightarrow> js_error + acc \<times> string list" where
  "gAst E s hI ignoreProcessed n [] st = Inr st"
| "gAst E s hI ignoreProcessed n (obj # rest) (a, seen) =
     (if ignoreProcessed \<and> raw obj \<in> set seen then gAst E s hI ignoreProcessed n rest (a, seen)
      else
        (let seen' = (if ignoreProcessed then seen @ [raw obj] else seen)
         in (case
               (if etype obj = TUtility then
                  (case content obj of
                     CList us \<Rightarrow> Inr (a, seen')
                   | CStr c \<Rightarrow>
                       (if c \<noteq> [] then
                          with_seen seen'
                            (gStyle_i E s hI c (variants obj) (raw obj) (important obj)
                               (config E s ''prefix'' JUndef) a)
                        else Inr (a, seen'))
                   | CUndef \<Rightarrow> Inr (a, seen'))
                else if etype obj = TGroup then with_seen seen' (hGroup_i E s hI n obj [] a)
                else
                  (case alias_of s (etype obj) (content obj) of
                     Own als \<Rightarrow>
                       (case n of
                          0 \<Rightarrow> Inl RangeError
                        | Suc m \<Rightarrow> gAst E s hI ignoreProcessed m als (a, seen'))
                   | Inherited \<Rightarrow>
                       (case n of
                          0 \<Rightarrow> Inl RangeError
                        | Suc m \<Rightarrow> Inl TypeError)
                   | Absent \<Rightarrow> Inr (hIgnored E hI (raw obj) a, seen')))
             of
               Inl e \<Rightarrow> Inl e
             | Inr st' \<Rightarrow> gAst E s hI ignoreProcessed n rest st')))"

text \<open>
  \<^verbatim>\<open>interpret\<close>, with the stack depth \<open>n\<close>; it returns its result and the Processor, whose
  cache of processed utilities it may have extended.
\<close>

definition Processor_interpret ::
  "collab \<Rightarrow> Processor \<Rightarrow> nat \<Rightarrow> string \<Rightarrow> bool \<Rightarrow> handler \<Rightarrow>
   js_error + interpret_result \<times> Processor" where
  "Processor_interpret E s n classNames ignoreProcessed handleIgnored =
     (let ast = ClassParser_parse E classNames (config E s ''separator'' (JStr '':''))
                  (c_variants (p_cache s))
      in (case gAst E s handleIgnored ignoreProcessed n ast (empty_acc E, c_utilities (p_cache s)) of
            Inl e \<Rightarrow> Inl e
          | Inr (a, seen) \<Rightarrow>
              Inr (\<lparr>i_success = success a, i_ignored = ignored a,
                     i_styleSheet = StyleSheet_sort E (apply_prefixer E s (styleSheet a))\<rparr>,
                   s\<lparr>p_cache := (p_cache s)\<lparr>c_utilities := seen\<rparr>\<rparr>)))"

subsection \<open>addDynamic and the generators it stores\<close>

definition default_options :: plugin_options where
  "default_options = \<lparr>po_layer = Some ''utilities'', po_respectImportant = True\<rparr>"

text \<open>\<^verbatim>\<open>Array.isArray(options) ? { variants: options } : options\<close>\<close>

definition uOptions_of :: "PluginUtilOptions option \<Rightarrow> plugin_options" where
  "uOptions_of options =
     (case options of
        None \<Rightarrow> default_options
      | Some (OptVariants vs) \<Rightarrow> \<lparr>po_layer = None, po_respectImportant = False\<rparr>
      | Some (OptObject opts) \<Rightarrow> opts)"

text \<open>
  \<^verbatim>\<open>addDynamic\<close> returns the generator it was given; the model returns the Processor
  with the new entry of \<^verbatim>\<open>_plugin.dynamic\<close>.
\<close>

definition addDynamic ::
  "collab \<Rightarrow> Processor \<Rightarrow> string \<Rightarrow> UtilityGenerator \<Rightarrow> PluginUtilOptions option \<Rightarrow> Processor" where
  "addDynamic E s key generator options =
     (let uOptions = uOptions_of options;
          layer = (case po_layer uOptions of None \<Rightarrow> ''utilities'' | Some l \<Rightarrow> l);
          order = layerOrder E layer + 1;
          dyn = pl_dynamic (p_plugin s);
          entry = (if in_object key dyn
                   then DynChained key generator (po_respectImportant uOptions)
                   else DynFirst generator (po_respectImportant uOptions) layer order)
      in s\<lparr>p_plugin := (p_plugin s)\<lparr>pl_dynamic := AList.update key entry dyn\<rparr>\<rparr>)"

text \<open>
  The default of the \<^verbatim>\<open>important\<close> parameter of the factories handed to a generator,
  \<^verbatim>\<open>uOptions.respectImportant && this._config.important ? true : false\<close>, read when the
  generator runs.
\<close>

definition important_default :: "Processor \<Rightarrow> bool \<Rightarrow> bool" where
  "important_default s respectImportant =
     (respectImportant \<and> truthy (jget (p_config s) ''important''))"

definition updateMeta_output :: "collab \<Rightarrow> string \<Rightarrow> int \<Rightarrow> Output option \<Rightarrow> Output option" where
  "updateMeta_output E layer order out =
     (case out of
        None \<Rightarrow> None
      | Some (Many styles) \<Rightarrow> Some (Many (map (\<lambda>i. Style_updateMeta E i layer ''plugin'' order) styles))
      | Some (Single style) \<Rightarrow> Some (Single (Style_updateMeta E style layer ''plugin'' order)))"

text \<open>
  Calling an entry of \<^verbatim>\<open>_plugin.dynamic\<close> on a utility, with \<open>n\<close> the depth the call stack
  still allows. The closure of a re-registration evaluates
  \<^verbatim>\<open>deepCopy(this._plugin.dynamic[key])(Utility) || generator(...)\<close>: it reads the table
  when it is called, and calls what it finds there.
\<close>

fun call_dynamic ::
  "collab \<Rightarrow> Processor \<Rightarrow> nat \<Rightarrow> dynamic_entry \<Rightarrow> string \<Rightarrow> js_error + Output option" where
  "call_dynamic E s n (DynFirst generator ri layer order) u =
     Inr (updateMeta_output E layer order (generator (important_default s ri) u))"
| "call_dynamic E s 0 (DynChained key generator ri) u = Inl RangeError"
| "call_dynamic E s (Suc m) (DynChained key generator ri) u =
     (case (case property_lookup (pl_dynamic (p_plugin s)) key of
              Own entry \<Rightarrow> call_dynamic E s m entry u
            | Inherited \<Rightarrow> inherited_generator E key u
            | Absent \<Rightarrow> Inl TypeError) of
        Inl e \<Rightarrow> Inl e
      | Inr (Some out) \<Rightarrow> Inr (Some out)
      | Inr None \<Rightarrow> Inr (generator (important_default s ri) u))"

text \<open>\<^verbatim>\<open>this._plugin.dynamic[key](Utility)\<close>, as the extractor calls a registered generator.\<close>

definition call_registered ::
  "collab \<Rightarrow> Processor \<Rightarrow> nat \<Rightarrow> string \<Rightarrow> string \<Rightarrow> js_error + Output option" where
  "call_registered E s n key u =
     (case property_lookup (pl_dynamic (p_plugin s)) key of
        Own entry \<Rightarrow> call_dynamic E s n entry u
      | Inherited \<Rightarrow> inherited_generator E key u
      | Absent \<Rightarrow> Inl TypeError)"

subsection \<open>Objects of the configuration\<close>

function show_nat :: "nat \<Rightarrow> string" where
  "show_nat n =
     (if n < 10 then [char_of (48 + n)]
      else show_nat (n div 10) @ [char_of (48 + n mod 10)])"
  by pat_completeness auto
termination
  by (relation "measure id") auto

text \<open>\<^verbatim>\<open>Object.entries\<close>: own enumerable properties, of an object, an array or a string.\<close>

fun entries :: "jsval \<Rightarrow> (string \<times> jsval) list" where
  "entries (JObj kvs) = kvs"
| "entries (JArr xs) = zip (map show_nat [0..<length xs]) xs"
| "entries (JStr cs) = zip (map show_nat [0..<length cs]) (map (\<lambda>c. JStr [c]) cs)"
| "entries _ = []"

text \<open>
  \<^verbatim>\<open>obj[key] = value\<close>, as the Processor uses it: on an object, or on an index that an
  array has.
\<close>

fun jset :: "jsval \<Rightarrow> string \<Rightarrow> jsval \<Rightarrow> jsval" where
  "jset (JObj kvs) k v = JObj (AList.update k v kvs)"
| "jset (JArr xs) k v = JArr (map (\<lambda>(i, x). if show_nat i = k then v else x) (zip [0..<length xs] xs))"
| "jset w k v = w"

fun jdelete :: "jsval \<Rightarrow> string \<Rightarrow> jsval" where
  "jdelete (JObj kvs) k = JObj (AList.delete k kvs)"
| "jdelete w k = w"

fun elements :: "jsval \<Rightarrow> jsval list" where
  "elements (JArr xs) = xs"
| "elements _ = []"

text \<open>\<^verbatim>\<open>typeof v === 'object'\<close>\<close>

fun typeof_object :: "jsval \<Rightarrow> bool" where
  "typeof_object JNull = True"
| "typeof_object (JArr _) = True"
| "typeof_object (JObj _) = True"
| "typeof_object (JRegExp _) = True"
| "typeof_object _ = False"

subsection \<open>Theme functions\<close>

text \<open>
  \<^verbatim>\<open>value(theme, { negative, breakpoints })\<close> for a function value; \<open>theme\<close> is the object
  that the accessor \<^verbatim>\<open>this.theme\<close> reads at the time of the call. The closures of
  \<^verbatim>\<open>_reduceFunction\<close> are evaluated as they are written there.
\<close>

fun call_fn :: "collab \<Rightarrow> jsval \<Rightarrow> jsval \<Rightarrow> jsval" where
  "call_fn E theme (JRedFn themeValue v) =
     combineConfig E (call_fn E theme themeValue)
       (if is_function v then call_fn E theme v else nullish_or v (JObj []))"
| "call_fn E theme (JRedObj themeValue v) =
     combineConfig E themeValue
       (if is_function v then call_fn E theme v else nullish_or v (JObj []))"
| "call_fn E theme f = theme_fn E f theme"

text \<open>
  The inner loop of \<^verbatim>\<open>_resolveFunction\<close> over the entries \<open>es\<close> that \<^verbatim>\<open>Object.entries(dict)\<close>
  listed before the loop: a function value is replaced in \<open>dict\<close> by what it returns.
  \<open>view\<close> gives the theme that the accessor reads while the dictionary is \<open>dict\<close>.
\<close>

definition resolve_entries ::
  "collab \<Rightarrow> (jsval \<Rightarrow> jsval) \<Rightarrow> (string \<times> jsval) list \<Rightarrow> jsval \<Rightarrow> jsval" where
  "resolve_entries E view es dict =
     fold (\<lambda>kv d. if is_function (snd kv) then jset d (fst kv) (call_fn E (view d) (snd kv)) else d)
       es dict"


text \<open>
  \<^verbatim>\<open>_resolveFunction(config)\<close>. When \<open>config\<close> is \<^verbatim>\<open>this._config\<close> (\<open>other = None\<close>) the
  accessor reads the theme that the loop is updating in place; when it is the
  configuration of a plugin the accessor reads \<^verbatim>\<open>this._theme\<close>, here \<open>other = Some t\<close>.
  The second dictionary is the object \<^verbatim>\<open>config.theme.extend\<close> as it was found before the
  first loop; it is still a property of the theme after that loop unless it was a
  function (which has no entries).
\<close>

definition resolveFunction :: "collab \<Rightarrow> jsval option \<Rightarrow> jsval \<Rightarrow> jsval" where
  "resolveFunction E other cfg =
     (let theme0 = jget cfg ''theme''
      in if \<not> truthy theme0 then cfg
         else
           (let ext0 = (if jhas theme0 ''extend''
                        then nullish_or (jget theme0 ''extend'') (JObj [])
                        else JObj []);
                theme1 = resolve_entries E (\<lambda>d. case other of None \<Rightarrow> d | Some t \<Rightarrow> t)
                           (entries theme0) theme0;
                ext1 = resolve_entries E
                         (\<lambda>d. case other of None \<Rightarrow> jset theme1 ''extend'' d | Some t \<Rightarrow> t)
                         (entries ext0) ext0;
                theme2 = (if jhas theme0 ''extend'' \<and> \<not> nullish (jget theme0 ''extend'')
                             \<and> \<not> is_function (jget theme0 ''extend'')
                          then jset theme1 ''extend'' ext1
                          else theme1)
            in jset cfg ''theme'' theme2))"

subsection \<open>Merging the user's configuration\<close>

text \<open>
  \<^verbatim>\<open>theme[key]\<close> for a key that is data: the own property of an object, the member that
  it inherits from \<^verbatim>\<open>Object.prototype\<close>, or undefined.
\<close>

definition jread :: "collab \<Rightarrow> jsval \<Rightarrow> string \<Rightarrow> jsval" where
  "jread E obj key =
     (case obj of
        JObj kvs \<Rightarrow>
          (case property_lookup kvs key of
             Own v \<Rightarrow> v
           | Inherited \<Rightarrow> inherited_value E key
           | Absent \<Rightarrow> JUndef)
      | _ \<Rightarrow> JUndef)"

text \<open>The body of the loop of \<^verbatim>\<open>_reduceFunction\<close>, for one entry of \<^verbatim>\<open>extendTheme\<close>.\<close>

definition reduce_entry :: "collab \<Rightarrow> jsval \<Rightarrow> string \<times> jsval \<Rightarrow> jsval" where
  "reduce_entry E theme kv =
     (let themeValue = jread E theme (fst kv)
      in if is_function themeValue then jset theme (fst kv) (JRedFn themeValue (snd kv))
         else if typeof_object themeValue then jset theme (fst kv) (JRedObj themeValue (snd kv))
         else jset theme (fst kv) (snd kv))"

text \<open>\<^verbatim>\<open>_reduceFunction(theme, extendTheme)\<close>; the updated \<open>theme\<close> is returned.\<close>

definition reduceFunction :: "collab \<Rightarrow> jsval \<Rightarrow> jsval \<Rightarrow> jsval" where
  "reduceFunction E theme extendTheme =
     fold (\<lambda>kv th. reduce_entry E th kv) (entries extendTheme) theme"

text \<open>Lines 136 to 147 of \<^verbatim>\<open>_resolveConfig\<close>, after the presets have been resolved.\<close>

definition resolveConfig_body :: "collab \<Rightarrow> jsval \<Rightarrow> jsval \<Rightarrow> jsval" where
  "resolveConfig_body E userConfig presets =
     (let userTheme = jget userConfig ''theme'';
          userConfig1 = (if truthy userTheme then jdelete userConfig ''theme'' else userConfig);
          extendTheme = (if truthy userTheme \<and> jhas userTheme ''extend''
                         then nullish_or (jget userTheme ''extend'') (JObj [])
                         else JObj []);
          theme0 = (if truthy (jget presets ''theme'') then jget presets ''theme'' else JObj []);
          theme1 = (if truthy userTheme then
                      fold (\<lambda>kv th. jset th (fst kv)
                                      (if is_function (snd kv) then snd kv else JObj (entries (snd kv))))
                        (entries (if jhas userTheme ''extend'' then jdelete userTheme ''extend''
                                  else userTheme))
                        theme0
                    else theme0);
          theme2 = (if truthy extendTheme \<and> typeof_object extendTheme
                    then reduceFunction E theme1 extendTheme
                    else theme1)
      in JObj (AList.update ''theme'' theme2 (obj_spread (entries presets) (entries userConfig1))))"

text \<open>The callback of \<^verbatim>\<open>presets.forEach\<close> in \<^verbatim>\<open>_resolvePresets\<close>, before it calls \<^verbatim>\<open>_resolveConfig\<close>.\<close>

definition preset_extend :: "collab \<Rightarrow> jsval \<Rightarrow> jsval \<Rightarrow> jsval \<times> jsval" where
  "preset_extend E ext p =
     (let pth = jget p ''theme''
      in if truthy pth \<and> jhas pth ''extend'' \<and> truthy (jget pth ''extend'')
         then (reduceFunction E ext (jget pth ''extend''), jset p ''theme'' (jdelete pth ''extend''))
         else (ext, p))"

text \<open>The end of \<^verbatim>\<open>_resolvePresets\<close>: the accumulated extension becomes \<^verbatim>\<open>config.theme.extend\<close>.\<close>

definition presets_result :: "jsval \<Rightarrow> jsval \<Rightarrow> jsval" where
  "presets_result cfg ext =
     (if truthy (jget cfg ''theme'')
      then jset cfg ''theme'' (jset (jget cfg ''theme'') ''extend'' ext)
      else jset cfg ''theme'' (JObj [(''extend'', ext)]))"

text \<open>
  \<^verbatim>\<open>_resolveConfig\<close> and the loop of \<^verbatim>\<open>_resolvePresets\<close> call each other; \<open>n\<close> is the depth
  of calls that the stack still allows.
\<close>

fun resolveConfig_rec :: "collab \<Rightarrow> nat \<Rightarrow> jsval \<Rightarrow> jsval \<Rightarrow> js_error + jsval"
and resolvePresets_loop ::
  "collab \<Rightarrow> nat \<Rightarrow> jsval list \<Rightarrow> jsval \<Rightarrow> jsval \<Rightarrow> js_error + jsval \<times> jsval" where
  "resolveConfig_rec E 0 userConfig presets =
     (if truthy (jget userConfig ''presets'') then Inl RangeError
      else Inr (resolveConfig_body E userConfig presets))"
| "resolveConfig_rec E (Suc m) userConfig presets =
     (if truthy (jget userConfig ''presets'') then
        (case resolvePresets_loop E m (elements (jget userConfig ''presets'')) (JObj []) (JObj []) of
           Inl e \<Rightarrow> Inl e
         | Inr (cfg, ext) \<Rightarrow>
             (case resolveConfig_rec E m (presets_result cfg ext) presets of
                Inl e \<Rightarrow> Inl e
              | Inr presets' \<Rightarrow>
                  Inr (resolveConfig_body E (jdelete userConfig ''presets'') presets')))
      else Inr (resolveConfig_body E userConfig presets))"
| "resolvePresets_loop E 0 ps cfg ext =
     (case ps of [] \<Rightarrow> Inr (cfg, ext) | _ \<Rightarrow> Inl RangeError)"
| "resolvePresets_loop E (Suc m) [] cfg ext = Inr (cfg, ext)"
| "resolvePresets_loop E (Suc m) (p # ps) cfg ext =
     (case preset_extend E ext p of (ext', p') \<Rightarrow>
        (case resolveConfig_rec E m p' cfg of
           Inl e \<Rightarrow> Inl e
         | Inr cfg' \<Rightarrow> resolvePresets_loop E (Suc m) ps cfg' ext'))"

subsection \<open>Variants and plugins\<close>

datatype VariantTypes = VScreen | VTheme | VState

definition Processor_resolveVariants ::
  "collab \<Rightarrow> Processor \<Rightarrow> VariantTypes option \<Rightarrow> ResolvedVariants" where
  "Processor_resolveVariants E s type =
     (case resolveVariants_lib E (p_config s) of (screen, theme, state) \<Rightarrow>
        (case type of
           Some VScreen \<Rightarrow> screen
         | Some VTheme \<Rightarrow> theme
         | Some VState \<Rightarrow> state
         | None \<Rightarrow> obj_spread (obj_spread (obj_spread [] screen) theme) state))"

text \<open>
  \<^verbatim>\<open>addVariant\<close>: the generator is given the separator when that is a string, \<open>None\<close>
  when the configuration holds another value there. The style is returned by the method
  and stored as the result of the new entry.
\<close>

definition separator_string :: "collab \<Rightarrow> Processor \<Rightarrow> string option" where
  "separator_string E s =
     (case config E s ''separator'' (JStr '':'') of JStr sep \<Rightarrow> Some sep | _ \<Rightarrow> None)"

definition addVariant :: "collab \<Rightarrow> Processor \<Rightarrow> string \<Rightarrow> (string option \<Rightarrow> style) \<Rightarrow> Processor" where
  "addVariant E s name generator =
     (let style = generator (separator_string E s)
      in s\<lparr>p_variants := AList.update name style (p_variants s),
           p_cache := (p_cache s)\<lparr>c_variants := c_variants (p_cache s) @ [name]\<rparr>\<rparr>)"

definition plugin_table :: "Plugin \<Rightarrow> AddPluginType \<Rightarrow> StyleArrayObject" where
  "plugin_table pl t =
     (case t of
        TStatic \<Rightarrow> pl_static pl
      | TUtilities \<Rightarrow> pl_utilities pl
      | TComponents \<Rightarrow> pl_components pl
      | TPreflights \<Rightarrow> pl_preflights pl
      | TShortcuts \<Rightarrow> pl_shortcuts pl)"

definition set_plugin_table :: "Plugin \<Rightarrow> AddPluginType \<Rightarrow> StyleArrayObject \<Rightarrow> Plugin" where
  "set_plugin_table pl t tab =
     (case t of
        TStatic \<Rightarrow> pl\<lparr>pl_static := tab\<rparr>
      | TUtilities \<Rightarrow> pl\<lparr>pl_utilities := tab\<rparr>
      | TComponents \<Rightarrow> pl\<lparr>pl_components := tab\<rparr>
      | TPreflights \<Rightarrow> pl\<lparr>pl_preflights := tab\<rparr>
      | TShortcuts \<Rightarrow> pl\<lparr>pl_shortcuts := tab\<rparr>)"

text \<open>
  \<^verbatim>\<open>_addPluginCache(type, key, styles)\<close>: the styles are appended to those of an own
  entry, or become the entry of a key that is not in the table. For a key that names an
  inherited member, \<^verbatim>\<open>key in this._plugin[type]\<close> is true and spreading the member, which
  is not iterable, is a TypeError.
\<close>

definition addPluginCache ::
  "Processor \<Rightarrow> AddPluginType \<Rightarrow> string \<Rightarrow> style list \<Rightarrow> js_error + Processor" where
  "addPluginCache s t key styles =
     (let tab = plugin_table (p_plugin s) t
      in (case property_lookup tab key of
            Own old \<Rightarrow>
              Inr (s\<lparr>p_plugin := set_plugin_table (p_plugin s) t (AList.update key (old @ styles) tab)\<rparr>)
          | Inherited \<Rightarrow> Inl TypeError
          | Absent \<Rightarrow>
              Inr (s\<lparr>p_plugin := set_plugin_table (p_plugin s) t (AList.update key styles tab)\<rparr>)))"

text \<open>A loop over a list that an exception leaves.\<close>

fun forEach :: "('a \<Rightarrow> 's \<Rightarrow> js_error + 's) \<Rightarrow> 'a list \<Rightarrow> 's \<Rightarrow> js_error + 's" where
  "forEach f [] s = Inr s"
| "forEach f (x # xs) s =
     (case f x s of
        Inl e \<Rightarrow> Inl e
      | Inr s' \<Rightarrow> forEach f xs s')"

fun plugin_call_step :: "collab \<Rightarrow> plugin_call \<Rightarrow> Processor \<Rightarrow> js_error + Processor" where
  "plugin_call_step E (CallAddVariant name generator) s = Inr (addVariant E s name generator)"
| "plugin_call_step E (CallAddDynamic key generator options) s =
     Inr (addDynamic E s key generator options)"
| "plugin_call_step E (CallAddStyles filed) s =
     forEach (\<lambda>tks s'. addPluginCache s' (fst tks) (fst (snd tks)) (snd (snd tks))) filed s"

text \<open>
  \<^verbatim>\<open>handler(this.pluginUtils)\<close>: a handler is a \<open>JHandler\<close>; anything else in its place is
  outside the \<^verbatim>\<open>PluginOutput\<close> type and registers nothing here.
\<close>

fun handler_calls :: "jsval \<Rightarrow> plugin_call list" where
  "handler_calls (JHandler calls) = calls"
| "handler_calls _ = []"

definition run_handler :: "collab \<Rightarrow> jsval \<Rightarrow> Processor \<Rightarrow> js_error + Processor" where
  "run_handler E h s = forEach (plugin_call_step E) (handler_calls h) s"

text \<open>The loop of \<^verbatim>\<open>loadPlugin\<close> over the entries of \<^verbatim>\<open>pluginTheme.extend\<close>.\<close>

definition plugin_extend_entry :: "collab \<Rightarrow> string \<times> jsval \<Rightarrow> jsval \<Rightarrow> jsval" where
  "plugin_extend_entry E kv pluginTheme =
     (let themeValue = jread E pluginTheme (fst kv)
      in if truthy themeValue \<and> typeof_object themeValue
         then jset pluginTheme (fst kv) (JObj (obj_spread (entries themeValue) (entries (snd kv))))
         else if truthy (snd kv) \<and> typeof_object (snd kv)
         then jset pluginTheme (fst kv) (snd kv)
         else pluginTheme)"

definition loadPlugin_config :: "collab \<Rightarrow> Processor \<Rightarrow> jsval \<Rightarrow> Processor" where
  "loadPlugin_config E s cfg =
     (let cfg1 = resolveFunction E (Some (jget (p_config s) ''theme'')) cfg;
          cfg2 = combineConfig E cfg1 (p_config s);
          pluginTheme = jget cfg2 ''theme'';
          extendTheme = jget pluginTheme ''extend'';
          pluginTheme' = (if truthy pluginTheme \<and> truthy extendTheme \<and> typeof_object extendTheme
                          then fold (plugin_extend_entry E) (entries extendTheme) pluginTheme
                          else pluginTheme)
      in s\<lparr>p_config := JObj (AList.update ''theme'' pluginTheme' (entries cfg2))\<rparr>)"

text \<open>\<^verbatim>\<open>loadPlugin({ handler, config })\<close>\<close>

definition loadPlugin :: "collab \<Rightarrow> Processor \<Rightarrow> jsval \<Rightarrow> js_error + Processor" where
  "loadPlugin E s pluginOutput =
     (let s1 = (if truthy (jget pluginOutput ''config'')
                then loadPlugin_config E s (jget pluginOutput ''config'')
                else s);
          s2 = s1\<lparr>p_config := resolveFunction E None (p_config s1)\<rparr>;
          s3 = s2\<lparr>p_variants := Processor_resolveVariants E s2 None\<rparr>
      in run_handler E (jget pluginOutput ''handler'') s3)"

text \<open>
  \<^verbatim>\<open>loadPluginWithOptions(optionsFunction)\<close> with no user options; \<open>plugin\<close> is what
  \<^verbatim>\<open>optionsFunction({})\<close> returns.
\<close>

definition loadPluginWithOptions :: "collab \<Rightarrow> Processor \<Rightarrow> jsval \<Rightarrow> js_error + Processor" where
  "loadPluginWithOptions E s plugin = loadPlugin E s plugin"

text \<open>The callback of \<^verbatim>\<open>this._config.plugins?.map\<close> in \<^verbatim>\<open>resolveConfig\<close>.\<close>

definition load_plugin_entry :: "collab \<Rightarrow> jsval \<Rightarrow> Processor \<Rightarrow> js_error + Processor" where
  "load_plugin_entry E i s =
     (if is_function i then
        (case i of
           JOptionsFn plugin \<Rightarrow> loadPluginWithOptions E s plugin
         | _ \<Rightarrow> loadPlugin E s (plugin_lib E i))
      else loadPlugin E s i)"

subsection \<open>Base styles from the theme's variables\<close>

fun split_at :: "string \<Rightarrow> string \<Rightarrow> (string \<times> string) option" where
  "split_at pat [] = (if pat = [] then Some ([], []) else None)"
| "split_at pat (c # cs) =
     (if take (length pat) (c # cs) = pat then Some ([], drop (length pat) (c # cs))
      else (case split_at pat cs of
              None \<Rightarrow> None
            | Some (pre, post) \<Rightarrow> Some (c # pre, post)))"

text \<open>
  One at-rule in \<^verbatim>\<open>_replaceStyleVariants\<close>: \<^verbatim>\<open>i.match(/@screen/)\<close>, then
  \<^verbatim>\<open>i.replace(/\s*@screen\s*/, '')\<close> names the variant whose first at-rule replaces it.
\<close>

definition replace_atRule :: "collab \<Rightarrow> ResolvedVariants \<Rightarrow> string \<Rightarrow> js_error + string" where
  "replace_atRule E V i =
     (case split_at ''@screen'' i of
        None \<Rightarrow> Inr i
      | Some (pre, post) \<Rightarrow>
          (let variant = rev (dropWhile is_space (rev pre)) @ dropWhile is_space post
           in (case call_variant E V variant of
                 Inl e \<Rightarrow> Inl e
               | Inr g \<Rightarrow>
                   (case first_atRule g of
                      Some atRule \<Rightarrow> Inr atRule
                    | None \<Rightarrow> Inr i))))"

fun replace_atRules :: "collab \<Rightarrow> ResolvedVariants \<Rightarrow> string list \<Rightarrow> js_error + string list" where
  "replace_atRules E V [] = Inr []"
| "replace_atRules E V (i # rest) =
     (case replace_atRule E V i of
        Inl e \<Rightarrow> Inl e
      | Inr r \<Rightarrow>
          (case replace_atRules E V rest of
             Inl e \<Rightarrow> Inl e
           | Inr rs \<Rightarrow> Inr (r # rs)))"

text \<open>\<^verbatim>\<open>_replaceStyleVariants(styles)\<close>; the updated styles are returned.\<close>

fun replaceStyleVariants :: "collab \<Rightarrow> ResolvedVariants \<Rightarrow> style list \<Rightarrow> js_error + style list" where
  "replaceStyleVariants E V [] = Inr []"
| "replaceStyleVariants E V (style # rest) =
     (case (case st_atRules style of
              None \<Rightarrow> Inr style
            | Some rules \<Rightarrow>
                (case replace_atRules E V rules of
                   Inl e \<Rightarrow> Inl e
                 | Inr rules' \<Rightarrow> Inr (style\<lparr>st_atRules := Some rules'\<rparr>)))
      of
        Inl e \<Rightarrow> Inl e
      | Inr style' \<Rightarrow>
          (case replaceStyleVariants E V rest of
             Inl e \<Rightarrow> Inl e
           | Inr rest' \<Rightarrow> Inr (style' # rest')))"

text \<open>\<^verbatim>\<open>addBase(baseStyles)\<close>; the method also returns the styles it filed.\<close>

fun addBase_entries :: "collab \<Rightarrow> (string \<times> jsval) list \<Rightarrow> Processor \<Rightarrow> js_error + Processor" where
  "addBase_entries E [] s = Inr s"
| "addBase_entries E (kv # rest) s =
     (case replaceStyleVariants E (p_variants s)
             (map (\<lambda>i. Style_updateMeta E i ''base'' ''plugin'' 10)
                (Style_generate E (fst kv) (snd kv))) of
        Inl e \<Rightarrow> Inl e
      | Inr styles \<Rightarrow>
          (case addPluginCache s TPreflights (fst kv) styles of
             Inl e \<Rightarrow> Inl e
           | Inr s' \<Rightarrow> addBase_entries E rest s'))"

definition addBase :: "collab \<Rightarrow> Processor \<Rightarrow> jsval \<Rightarrow> js_error + Processor" where
  "addBase E s baseStyles = addBase_entries E (entries baseStyles) s"

definition Processor_theme :: "collab \<Rightarrow> Processor \<Rightarrow> string \<Rightarrow> jsval \<Rightarrow> jsval" where
  "Processor_theme E s path defaultValue =
     (if truthy (jget (p_config s) ''theme'')
      then nullish_or (getNestedValue E (jget (p_config s) ''theme'') path) defaultValue
      else JUndef)"

text \<open>\<^verbatim>\<open>_loadVariables()\<close>\<close>

definition loadVariables :: "collab \<Rightarrow> Processor \<Rightarrow> js_error + Processor" where
  "loadVariables E s =
     (let vars = Processor_theme E s ''vars'' JUndef
      in if \<not> truthy vars then Inr s
         else addBase E s
                (JObj [('':root'',
                        JObj (obj_spread [] (map (\<lambda>kv. (''--'' @ fst kv, snd kv)) (entries vars))))]))"

subsection \<open>resolveConfig\<close>

text \<open>
  \<^verbatim>\<open>{ ...deepCopy(config ? config : {}), exclude: config?.exclude }\<close>; an absent
  configuration is \<open>JUndef\<close>.
\<close>

definition user_config :: "jsval \<Rightarrow> jsval" where
  "user_config cfg =
     JObj (AList.update ''exclude'' (jget cfg ''exclude'')
             (entries (if truthy cfg then cfg else JObj [])))"

text \<open>The new value of \<^verbatim>\<open>this._plugin.core\<close> on line 246, for a truthy \<^verbatim>\<open>corePlugins\<close>.\<close>

definition core_of :: "collab \<Rightarrow> jsval \<Rightarrow> (string \<times> jsval) list" where
  "core_of E corePlugins =
     (case corePlugins of
        JArr xs \<Rightarrow> obj_spread [] (map (\<lambda>i. (ToPropertyKey E i, JBool True)) xs)
      | _ \<Rightarrow> obj_spread (obj_spread [] (map (\<lambda>i. (i, JBool True)) (default_core E)))
               (entries corePlugins))"

text \<open>
  Lines 239 to 241 of \<^verbatim>\<open>resolveConfig\<close>: the merged configuration is stored and the
  plugins are loaded in order.
\<close>

definition resolveConfig_plugins :: "collab \<Rightarrow> nat \<Rightarrow> Processor \<Rightarrow> jsval \<Rightarrow> jsval \<Rightarrow> js_error + Processor" where
  "resolveConfig_plugins E n s cfg presets =
     (case resolveConfig_rec E n (user_config cfg) presets of
        Inl e \<Rightarrow> Inl e
      | Inr merged \<Rightarrow>
          forEach (load_plugin_entry E) (elements (jget merged ''plugins''))
            (s\<lparr>p_config := merged\<rparr>))"

text \<open>Lines 242 to 247 of \<^verbatim>\<open>resolveConfig\<close>, from the state that the plugins left.\<close>

definition resolveConfig_finish :: "collab \<Rightarrow> Processor \<Rightarrow> js_error + Processor" where
  "resolveConfig_finish E s1 =
     (let s2 = s1\<lparr>p_config := resolveFunction E None (p_config s1)\<rparr>;
          s3 = s2\<lparr>p_variants := obj_spread (p_variants s2) (Processor_resolveVariants E s2 None)\<rparr>;
          s4 = s3\<lparr>p_cache := (p_cache s3)\<lparr>c_variants := map fst (p_variants s3)\<rparr>\<rparr>
      in (case loadVariables E s4 of
            Inl e \<Rightarrow> Inl e
          | Inr s5 \<Rightarrow>
              Inr (if truthy (jget (p_config s5) ''corePlugins'')
                   then s5\<lparr>p_plugin := (p_plugin s5)
                          \<lparr>pl_core := Some (core_of E (jget (p_config s5) ''corePlugins''))\<rparr>\<rparr>
                   else s5)))"

text \<open>
  \<^verbatim>\<open>resolveConfig(config, presets)\<close>, with the stack depth \<open>n\<close> for the presets; the method
  returns \<^verbatim>\<open>this._config\<close>, the model the Processor that holds it.
\<close>

definition resolveConfig :: "collab \<Rightarrow> nat \<Rightarrow> Processor \<Rightarrow> jsval \<Rightarrow> jsval \<Rightarrow> js_error + Processor" where
  "resolveConfig E n s cfg presets =
     (case resolveConfig_plugins E n s cfg presets of
        Inl e \<Rightarrow> Inl e
      | Inr s1 \<Rightarrow> resolveConfig_finish E s1)"

subsection \<open>A small instance\<close>

text \<open>
  Concrete collaborators and a concrete Processor, on which the definitions above are
  evaluated: a small parser, an extractor with two utilities, a variant table with
  \<^verbatim>\<open>hover\<close> and \<^verbatim>\<open>sm\<close>.
\<close>

definition sample_meta :: meta where
  "sample_meta = \<lparr>mt_type = ''utilities'', mt_group = ''block'', mt_order = 0, mt_variants = None\<rparr>"

definition sample_style :: style where
  "sample_style =
     \<lparr>st_class = StyleC, st_selector = None, st_important = False, st_property = [],
      st_atRules = None, st_meta = sample_meta, st_wrap = []\<rparr>"

definition sample_padding :: style where
  "sample_padding =
     sample_style\<lparr>st_selector := Some ''.p-2'',
       st_property := [\<lparr>pr_name = [''padding''], pr_value = Some ''0.5rem'',
                        pr_comment = None, pr_important = False\<rparr>]\<rparr>"

definition sample_keyframes :: style where
  "sample_keyframes = sample_style\<lparr>st_class := KeyframesC, st_selector := Some ''spin''\<rparr>"

definition sample_hover :: style where
  "sample_hover = sample_style\<lparr>st_wrap := ['':hover'']\<rparr>"

definition sample_sm :: style where
  "sample_sm = sample_style\<lparr>st_atRules := Some [''@media (min-width: 640px)'']\<rparr>"

definition sample_extend :: "style \<Rightarrow> style \<Rightarrow> style \<times> style" where
  "sample_extend r i =
     (let r' = r\<lparr>st_selector := (case st_selector i of None \<Rightarrow> st_selector r | Some x \<Rightarrow> Some x),
                 st_important := (st_important r \<or> st_important i),
                 st_property := st_property r @ st_property i,
                 st_atRules := (case st_atRules i of
                                  None \<Rightarrow> st_atRules r
                                | Some b \<Rightarrow> Some ((case st_atRules r of None \<Rightarrow> [] | Some a \<Rightarrow> a) @ b)),
                 st_wrap := st_wrap r @ st_wrap i\<rparr>
      in (r', r'))"

text \<open>
  The sample parser: it splits at white space, peels the prefixes \<^verbatim>\<open>name:\<close> of a word whose
  name is in the list of known variants, and reads a word that starts with \<^verbatim>\<open>*\<close> as an
  alias.
\<close>

fun sample_peel :: "nat \<Rightarrow> string list \<Rightarrow> string \<Rightarrow> string list \<times> string" where
  "sample_peel 0 known w = ([], w)"
| "sample_peel (Suc n) known w =
     (case split_at '':'' w of
        None \<Rightarrow> ([], w)
      | Some (pre, post) \<Rightarrow>
          (if pre \<in> set known
           then (case sample_peel n known post of (vs, base) \<Rightarrow> (pre # vs, base))
           else ([], w)))"

definition sample_element :: "string list \<Rightarrow> string \<Rightarrow> element" where
  "sample_element known w =
     (case w of
        CHR ''*'' # name \<Rightarrow> Element w TAlias [] (CStr name) False
      | _ \<Rightarrow>
          (case sample_peel (length w) known w of
             (vs, base) \<Rightarrow> Element w TUtility vs (CStr base) False))"

definition sample_parse :: "string \<Rightarrow> jsval \<Rightarrow> string list \<Rightarrow> element list" where
  "sample_parse classNames separator known =
     map (sample_element known) (filter (\<lambda>w. w \<noteq> []) (split_spaces (trim classNames)))"

definition sample_extract ::
  "Processor \<Rightarrow> string \<Rightarrow> bool \<Rightarrow> jsval \<Rightarrow> js_error + Output option" where
  "sample_extract s className addComment prefix =
     (if className = ''p-2'' then Inr (Some (Single sample_padding))
      else if className = ''animate-spin'' then Inr (Some (Many [sample_padding, sample_keyframes]))
      else Inr None)"

text \<open>
  The sample of \<^verbatim>\<open>className.replace(new RegExp(`^${prefix}`), '')\<close>, for a prefix without
  special characters and for the prefix \<^verbatim>\<open>(\<close>, which makes \<^verbatim>\<open>^(\<close> an unterminated group.
\<close>

definition sample_strip :: "jsval \<Rightarrow> string \<Rightarrow> js_error + string" where
  "sample_strip prefix className =
     (case prefix of
        JStr p \<Rightarrow>
          (if p = ''('' then Inl SyntaxError
           else if take (length p) className = p then Inr (drop (length p) className)
           else Inr className)
      | _ \<Rightarrow> Inr className)"

definition sample_sheet :: stylesheet where
  "sample_sheet = \<lparr>children = [], prefixer = True\<rparr>"

definition sample_add :: "stylesheet \<Rightarrow> Output option \<Rightarrow> stylesheet" where
  "sample_add sheet item =
     (case item of
        None \<Rightarrow> sheet
      | Some out \<Rightarrow> sheet\<lparr>children := children sheet @ toArray out\<rparr>)"

definition sample_test :: "string \<Rightarrow> jsval \<Rightarrow> bool" where
  "sample_test text patterns =
     list_ex (\<lambda>p. case p of JRegExp src \<Rightarrow> src = text | _ \<Rightarrow> False) (elements patterns)"

definition sample_key :: "jsval \<Rightarrow> string" where
  "sample_key v = (case v of JStr k \<Rightarrow> k | _ \<Rightarrow> [])"

text \<open>
  The sample of the user's theme functions: the n-th function returns n plus ten times the
  number of top-level entries of the theme that the accessor shows it as functions.
\<close>

definition sample_theme_fn :: "jsval \<Rightarrow> jsval \<Rightarrow> jsval" where
  "sample_theme_fn f theme =
     (case f of
        JFun n \<Rightarrow> JNum (int n + 10 * int (length (filter (\<lambda>kv. is_function (snd kv)) (entries theme))))
      | _ \<Rightarrow> JUndef)"

definition sample_collab :: collab where
  "sample_collab =
     \<lparr>hash = (\<lambda>str. show_nat (length str)),
      ClassParser_parse = sample_parse,
      extract_lib = sample_extract,
      testRegexr = sample_test,
      cssEscape = (\<lambda>str. str),
      getNestedValue = jget,
      combineConfig = (\<lambda>a b. JObj (obj_spread (entries b) (entries a))),
      resolveVariants_lib = (\<lambda>cfg. ([(''sm'', sample_sm)], [], [(''hover'', sample_hover)])),
      theme_fn = sample_theme_fn,
      plugin_lib = (\<lambda>h. JObj [(''handler'', h), (''config'', JUndef)]),
      ToPropertyKey = sample_key,
      new_Style = sample_style,
      new_Container = sample_style\<lparr>st_class := ContainerC\<rparr>,
      new_StyleSheet = sample_sheet,
      Style_extend = sample_extend,
      Style_parent = (\<lambda>style sel. style\<lparr>st_wrap := st_wrap style @ [sel]\<rparr>),
      Style_updateMeta = (\<lambda>style layer grp order.
        style\<lparr>st_meta := (st_meta style)\<lparr>mt_type := layer, mt_group := grp, mt_order := order\<rparr>\<rparr>),
      Style_generate = (\<lambda>selector rules. [sample_style\<lparr>st_selector := Some selector\<rparr>]),
      StyleSheet_sort = (\<lambda>sheet. sheet),
      StyleSheet_sortby_sortGroup = (\<lambda>sheet. sheet),
      StyleSheet_combine = (\<lambda>sheet. sheet),
      StyleSheet_add = sample_add,
      RegExp_strip_prefix = sample_strip,
      inherited_variant = (\<lambda>k. Inl TypeError),
      inherited_generator = (\<lambda>k u. Inl TypeError),
      inherited_styles = (\<lambda>k. None),
      inherited_value = (\<lambda>k. JUndef),
      layerOrder = (\<lambda>layer. if layer = ''utilities'' then 300 else 100),
      pluginOrder_keys = [''0'', ''1'', ''container'', ''flex'']\<rparr>"

definition sample_cache :: Cache where
  "sample_cache = \<lparr>c_html = [], c_classes = [], c_variants = [''sm'', ''hover''], c_utilities = []\<rparr>"

definition sample_plugin :: Plugin where
  "sample_plugin =
     \<lparr>pl_core = None, pl_static = [], pl_dynamic = [], pl_utilities = [], pl_components = [],
      pl_preflights = [], pl_shortcuts = [], pl_alias = []\<rparr>"

definition sample_processor :: Processor where
  "sample_processor =
     \<lparr>p_config = JObj [(''prefixer'', JBool True), (''exclude'', JArr [JRegExp ''m-1''])],
      p_variants = [(''sm'', sample_sm), (''hover'', sample_hover)],
      p_cache = sample_cache,
      p_plugin = sample_plugin\<rparr>"

text \<open>
  What a call of \<^verbatim>\<open>compile\<close> left, for reading evaluations: the success list, the ignored
  list, the class name, and the cache of emitted class names.
\<close>

definition compile_summary ::
  "js_error + compile_result \<times> Processor \<Rightarrow>
   js_error + string list \<times> string list \<times> string option \<times> string list" where
  "compile_summary outcome =
     (case outcome of
        Inl e \<Rightarrow> Inl e
      | Inr (r, s') \<Rightarrow> Inr (r_success r, r_ignored r, r_className r, c_classes (p_cache s')))"

definition interpret_summary ::
  "js_error + interpret_result \<times> Processor \<Rightarrow> js_error + string list \<times> string list" where
  "interpret_summary outcome =
     (case outcome of
        Inl e \<Rightarrow> Inl e
      | Inr (r, s') \<Rightarrow> Inr (i_success r, i_ignored r))"

text \<open>The sample Processor with the alias \<^verbatim>\<open>btn\<close> for \<^verbatim>\<open>hover:p-2 m-1\<close>.\<close>

definition sample_aliased :: Processor where
  "sample_aliased =
     sample_processor\<lparr>p_plugin := sample_plugin
       \<lparr>pl_alias := [(''btn'', [Element ''hover:p-2'' TUtility [''hover''] (CStr ''p-2'') False,
                                  Element ''m-1'' TUtility [] (CStr ''m-1'') False])]\<rparr>\<rparr>"

text \<open>The sample Processor after it has emitted the class name \<^verbatim>\<open>windi-3\<close>.\<close>

definition sample_emitted :: Processor where
  "sample_emitted =
     sample_processor\<lparr>p_cache := sample_cache\<lparr>c_classes := [''windi-3'']\<rparr>\<rparr>"

subsection \<open>A new Processor and a configuration with a plugin\<close>

text \<open>
  The fields of a Processor as its class initialises them (lines 82 to 98), before the
  constructor has loaded a configuration.
\<close>

definition initial_Processor :: Processor where
  "initial_Processor =
     \<lparr>p_config = JUndef,
      p_variants = [],
      p_cache = \<lparr>c_html = [], c_classes = [], c_variants = [], c_utilities = []\<rparr>,
      p_plugin = \<lparr>pl_core = None, pl_static = [], pl_dynamic = [], pl_utilities = [],
                  pl_components = [], pl_preflights = [], pl_shortcuts = [], pl_alias = []\<rparr>\<rparr>"

text \<open>A plugin's own wrapper for the name \<^verbatim>\<open>hover\<close>, which the built-in table also has.\<close>

definition sample_plugin_hover :: style where
  "sample_plugin_hover = sample_style\<lparr>st_wrap := ['':hover'', '':focus'']\<rparr>"

definition sample_plugin_config :: jsval where
  "sample_plugin_config =
     JObj [(''plugins'',
            JArr [JHandler [CallAddVariant ''hover'' (\<lambda>separator. sample_plugin_hover),
                            CallAddVariant ''hocus'' (\<lambda>separator. sample_plugin_hover)]])]"




text \<open>The number that a value is, for reading evaluations.\<close>

fun jnum :: "jsval \<Rightarrow> int option" where
  "jnum (JNum n) = Some n"
| "jnum _ = None"

text \<open>
  The entry of a name in the variant table after a resolution, whether the value at a path
  of the configuration is a function, and whether the resolution returned.
\<close>

definition variant_after :: "string \<Rightarrow> js_error + Processor \<Rightarrow> js_error + style option" where
  "variant_after name outcome =
     (case outcome of Inl e \<Rightarrow> Inl e | Inr s' \<Rightarrow> Inr (map_of (p_variants s') name))"




text \<open>The sample Processor with the alias \<^verbatim>\<open>a\<close> for \<^verbatim>\<open>*a\<close>, which names itself.\<close>

definition sample_cyclic :: Processor where
  "sample_cyclic =
     sample_processor\<lparr>p_plugin := sample_plugin
       \<lparr>pl_alias := [(''a'', [Element ''*a'' TAlias [] (CStr ''a'') False])]\<rparr>\<rparr>"



text \<open>The sample Processor with \<^verbatim>\<open>important: true\<close> and with \<^verbatim>\<open>important: '#app'\<close>.\<close>

definition sample_important :: Processor where
  "sample_important =
     sample_processor\<lparr>p_config := JObj [(''prefixer'', JBool True), (''important'', JBool True)]\<rparr>"

definition sample_important_selector :: Processor where
  "sample_important_selector =
     sample_processor\<lparr>p_config := JObj [(''prefixer'', JBool True), (''important'', JStr ''#app'')]\<rparr>"




subsection \<open>The calls that a traversal makes\<close>

text \<open>
  A traversal of the syntax tree reaches the accumulators through two closures only:
  \<^verbatim>\<open>_gStyle(baseClass, variants, selector, important)\<close> for a utility, and
  \<^verbatim>\<open>_hIgnored(raw)\<close> for a top-level element that is neither a utility nor a group nor an
  alias of the table. \<open>visits_c\<close> and \<open>visits_gAst\<close> list these calls in the order in which
  \<^verbatim>\<open>compile\<close> and \<^verbatim>\<open>interpret\<close> make them; the list depends on the tree, the alias table and
  the cache of processed utilities, not on what the calls do. The first component of a
  call of \<^verbatim>\<open>_gStyle\<close> is the content of the utility: \<^verbatim>\<open>interpret\<close> passes it as the base
  class, \<^verbatim>\<open>compile\<close> passes \<^verbatim>\<open>this.removePrefix(content)\<close>. \<open>run_visits\<close> makes the calls of a
  list in order and stops at the first exception.
\<close>

datatype visit = GStyle string "string list" string bool | HIgnored string

fun visit_name :: "visit \<Rightarrow> string" where
  "visit_name (GStyle c vs selector imp) = selector"
| "visit_name (HIgnored r) = r"


fun run_visits :: "(visit \<Rightarrow> acc \<Rightarrow> js_error + acc) \<Rightarrow> visit list \<Rightarrow> acc \<Rightarrow> js_error + acc" where
  "run_visits f [] a = Inr a"
| "run_visits f (v # vs) a =
     (case f v a of
        Inl e \<Rightarrow> Inl e
      | Inr a' \<Rightarrow> run_visits f vs a')"

fun visit_c ::
  "collab \<Rightarrow> Processor \<Rightarrow> handler \<Rightarrow> bool \<Rightarrow> string \<Rightarrow> visit \<Rightarrow> acc \<Rightarrow> js_error + acc" where
  "visit_c E s hI sc bs (GStyle c vs selector imp) a =
     (case removePrefix E s c of
        Inl e \<Rightarrow> Inl e
      | Inr base \<Rightarrow> gStyle_c E s hI sc bs base vs selector imp a)"
| "visit_c E s hI sc bs (HIgnored r) a = Inr (hIgnored E hI r a)"

fun visit_i :: "collab \<Rightarrow> Processor \<Rightarrow> handler \<Rightarrow> visit \<Rightarrow> acc \<Rightarrow> js_error + acc" where
  "visit_i E s hI (GStyle c vs selector imp) a =
     gStyle_i E s hI c vs selector imp (config E s ''prefix'' JUndef) a"
| "visit_i E s hI (HIgnored r) a = Inr (hIgnored E hI r a)"

fun visits_item_c :: "string list \<Rightarrow> bool \<Rightarrow> string list \<Rightarrow> element \<Rightarrow> visit list"
and visits_items_c :: "string list \<Rightarrow> bool \<Rightarrow> string list \<Rightarrow> element list \<Rightarrow> visit list" where
  "visits_item_c ov oi pv (Element r TGroup uv (CList us) ui) = visits_items_c uv ui ov us"
| "visits_item_c ov oi pv (Element r TGroup uv c ui) = []"
| "visits_item_c ov oi pv (Element r t uv c ui) =
     (let vs = pv @ ov @ uv;
          selector = join '':'' (vs @ [content_string c])
      in (case c of
            CStr c' \<Rightarrow> [GStyle c' vs selector (oi \<or> ui)]
          | _ \<Rightarrow> []))"
| "visits_items_c ov oi pv [] = []"
| "visits_items_c ov oi pv (u # us) = visits_item_c ov oi pv u @ visits_items_c ov oi pv us"

definition visits_obj_c :: "element \<Rightarrow> visit list" where
  "visits_obj_c obj =
     (if etype obj = TUtility then
        (case content obj of
           CStr c \<Rightarrow>
             (if c \<noteq> [] then [GStyle c (variants obj) (raw obj) (important obj)]
              else [])
         | _ \<Rightarrow> [])
      else if etype obj = TGroup then
        (case content obj of
           CList us \<Rightarrow> visits_items_c (variants obj) (important obj) [] us
         | _ \<Rightarrow> [])
      else [HIgnored (raw obj)])"

definition visits_c :: "element list \<Rightarrow> visit list" where
  "visits_c ast = concat (map visits_obj_c ast)"

text \<open>
  The calls of \<^verbatim>\<open>interpret\<close>. An alias of the table is expanded to the calls of its
  elements; \<open>None\<close> says that the expansion fails: it needs more nested calls than the
  depth \<open>n\<close> allows, or it comes to an alias whose name is a member inherited from
  \<^verbatim>\<open>Object.prototype\<close>.
\<close>

fun visits_eval_i ::
  "Processor \<Rightarrow> nat \<Rightarrow> string list \<Rightarrow> bool \<Rightarrow> string list \<Rightarrow> element \<Rightarrow> visit list option"
and visits_evals_i ::
  "Processor \<Rightarrow> nat \<Rightarrow> string list \<Rightarrow> bool \<Rightarrow> string list \<Rightarrow> element list \<Rightarrow> visit list option" where
  "visits_eval_i s n ov oi pv (Element r TGroup uv (CList us) ui) = visits_evals_i s n uv ui ov us"
| "visits_eval_i s n ov oi pv (Element r TGroup uv c ui) = Some []"
| "visits_eval_i s n ov oi pv (Element r t uv c ui) =
     (case alias_of s t c of
        Own als \<Rightarrow>
          (case n of
             0 \<Rightarrow> None
           | Suc m \<Rightarrow> visits_evals_i s m ov oi pv als)
      | Inherited \<Rightarrow> None
      | Absent \<Rightarrow>
          (let vs = pv @ ov @ uv;
               imp = (oi \<or> ui);
               selector = (if imp then ''!'' else []) @ join '':'' (vs @ [content_string c])
           in (case c of
                 CStr base \<Rightarrow> Some [GStyle base vs selector imp]
               | _ \<Rightarrow> Some [])))"
| "visits_evals_i s n ov oi pv [] = Some []"
| "visits_evals_i s n ov oi pv (u # us) =
     (case visits_eval_i s n ov oi pv u of
        None \<Rightarrow> None
      | Some vs \<Rightarrow>
          (case visits_evals_i s n ov oi pv us of
             None \<Rightarrow> None
           | Some ws \<Rightarrow> Some (vs @ ws)))"

text \<open>The calls of \<^verbatim>\<open>_gAst\<close>, with the cache of processed utilities that it leaves.\<close>

fun visits_gAst ::
  "Processor \<Rightarrow> bool \<Rightarrow> nat \<Rightarrow> element list \<Rightarrow> string list \<Rightarrow> (visit list \<times> string list) option" where
  "visits_gAst s ignoreProcessed n [] seen = Some ([], seen)"
| "visits_gAst s ignoreProcessed n (obj # rest) seen =
     (if ignoreProcessed \<and> raw obj \<in> set seen then visits_gAst s ignoreProcessed n rest seen
      else
        (let seen' = (if ignoreProcessed then seen @ [raw obj] else seen)
         in (case
               (if etype obj = TUtility then
                  (case content obj of
                     CStr c \<Rightarrow>
                       (if c \<noteq> []
                        then Some ([GStyle c (variants obj) (raw obj) (important obj)], seen')
                        else Some ([], seen'))
                   | _ \<Rightarrow> Some ([], seen'))
                else if etype obj = TGroup then
                  (case content obj of
                     CList us \<Rightarrow>
                       map_option (\<lambda>vs. (vs, seen'))
                         (visits_evals_i s n (variants obj) (important obj) [] us)
                   | _ \<Rightarrow> Some ([], seen'))
                else
                  (case alias_of s (etype obj) (content obj) of
                     Own als \<Rightarrow>
                       (case n of
                          0 \<Rightarrow> None
                        | Suc m \<Rightarrow> visits_gAst s ignoreProcessed m als seen')
                   | Inherited \<Rightarrow> None
                   | Absent \<Rightarrow> Some ([HIgnored (raw obj)], seen')))
             of
               None \<Rightarrow> None
             | Some (vs, seen'') \<Rightarrow>
                 (case visits_gAst s ignoreProcessed n rest seen'' of
                    None \<Rightarrow> None
                  | Some (ws, seen''') \<Rightarrow> Some (vs @ ws, seen''')))))"

text \<open>
  The calls of a whole \<^verbatim>\<open>compile\<close> or \<^verbatim>\<open>interpret\<close> on a class string; a \<^verbatim>\<open>compile\<close> that
  finds its class name among the emitted ones makes none.
\<close>

definition compile_visits ::
  "collab \<Rightarrow> Processor \<Rightarrow> string \<Rightarrow> string \<Rightarrow> bool \<Rightarrow> string option \<Rightarrow> visit list" where
  "compile_visits E s classNames prefix ignoreGenerated outputClassName =
     (if ignoreGenerated \<and>
         synthesized_className E classNames prefix outputClassName \<in> set (c_classes (p_cache s))
      then []
      else visits_c
             (ClassParser_parse E classNames (config E s ''separator'' (JStr '':''))
                (c_variants (p_cache s))))"

definition interpret_visits ::
  "collab \<Rightarrow> Processor \<Rightarrow> nat \<Rightarrow> string \<Rightarrow> bool \<Rightarrow> visit list option" where
  "interpret_visits E s n classNames ignoreProcessed =
     map_option fst
       (visits_gAst s ignoreProcessed n
          (ClassParser_parse E classNames (config E s ''separator'' (JStr '':''))
             (c_variants (p_cache s)))
          (c_utilities (p_cache s)))"

text \<open>
  A call is declined when its selector is excluded, or when it is not one of the plugin
  selectors that clash with the parser's syntax and \<^verbatim>\<open>extract\<close> returns undefined for its
  base class (no static utility and no dynamic generator accepts it); \<^verbatim>\<open>_hIgnored\<close> is
  called for what is not recognised at all. \<open>declined_i\<close> is for a call of \<^verbatim>\<open>interpret\<close>,
  which extracts the content with the prefix of the configuration; \<open>declined_c\<close> is for a
  call of \<^verbatim>\<open>compile\<close>, which extracts what \<^verbatim>\<open>removePrefix\<close> makes of the content.
\<close>

fun declined_i :: "collab \<Rightarrow> Processor \<Rightarrow> visit \<Rightarrow> bool" where
  "declined_i E s (GStyle c vs selector imp) =
     (excluded E s selector \<or>
      (\<not> special_selector s vs selector \<and>
       (case Processor_extract E s c False (config E s ''prefix'' JUndef) of
          Inr None \<Rightarrow> True
        | _ \<Rightarrow> False)))"
| "declined_i E s (HIgnored r) = True"

fun declined_c :: "collab \<Rightarrow> Processor \<Rightarrow> bool \<Rightarrow> visit \<Rightarrow> bool" where
  "declined_c E s showComment (GStyle c vs selector imp) =
     (excluded E s selector \<or>
      (\<not> special_selector s vs selector \<and>
       (case removePrefix E s c of
          Inl e \<Rightarrow> False
        | Inr base \<Rightarrow>
            (case Processor_extract E s base showComment JUndef of
               Inr None \<Rightarrow> True
             | _ \<Rightarrow> False))))"
| "declined_c E s showComment (HIgnored r) = True"

fun is_excluded :: "collab \<Rightarrow> Processor \<Rightarrow> visit \<Rightarrow> bool" where
  "is_excluded E s (GStyle c vs selector imp) = excluded E s selector"
| "is_excluded E s (HIgnored r) = False"





section \<open>Theorems\<close>

subsection \<open>Property lookup\<close>

lemma property_lookup_own: "map_of obj key = Some v \<Longrightarrow> property_lookup obj key = Own v"
  by (simp add: property_lookup_def)



lemma in_object_key: "key \<in> set (map fst obj) \<Longrightarrow> in_object key obj"
  by (simp add: in_object_def)

lemma extend_no_member: "''extend'' \<notin> set Object_prototype_keys"
  by (simp add: Object_prototype_keys_def)

lemma jhas_extend: "jhas (JObj kvs) ''extend'' = (''extend'' \<in> set (map fst kvs))"
  by (simp add: in_object_def extend_no_member)

subsection \<open>wrapWithVariants\<close>






text \<open>
  C10. With an empty list of variant names \<^verbatim>\<open>wrapWithVariants\<close> returns the styles it was
  given, as a list and unchanged: a single style becomes the one-element list, a list is
  returned as it is. No variant is looked up and no style is extended or updated.
\<close>

theorem wrapWithVariants_empty_variants:
  "wrapWithVariants E s [] styles = Inr (Some (toArray styles))"
  by (simp add: wrapWithVariants_def)




subsection \<open>markAsImportant\<close>

text \<open>
  C8. \<^verbatim>\<open>markAsImportant\<close> acts on the forced argument when that is truthy and on the
  \<^verbatim>\<open>important\<close> of the configuration otherwise. When the value it acts on is the boolean
  true, the rule and every one of its declarations get the important flag and nothing
  else changes; when it is a non-empty selector string, the result is the style as
  \<^verbatim>\<open>parent(selector)\<close> leaves it and no flag is set by the method; when the forced
  argument is false and the configuration has false, an empty string or nothing, the
  style is returned unchanged.
\<close>

theorem markAsImportant_by_value:
  "(force = JBool True \<or>
    (\<not> truthy force \<and> getNestedValue E (p_config s) ''important'' = JBool True) \<longrightarrow>
      markAsImportant E s style force =
        style\<lparr>st_important := True,
              st_property := map (\<lambda>i. i\<lparr>pr_important := True\<rparr>) (st_property style)\<rparr> \<and>
      st_important (markAsImportant E s style force) \<and>
      (\<forall>i \<in> set (st_property (markAsImportant E s style force)). pr_important i)) \<and>
   (sel \<noteq> [] \<and>
    (force = JStr sel \<or>
     (\<not> truthy force \<and> getNestedValue E (p_config s) ''important'' = JStr sel)) \<longrightarrow>
      markAsImportant E s style force = Style_parent E style sel) \<and>
   (\<not> truthy force \<and>
    (nullish (getNestedValue E (p_config s) ''important'') \<or>
     \<not> truthy (getNestedValue E (p_config s) ''important'')) \<longrightarrow>
      markAsImportant E s style force = style)"
  by (auto simp: markAsImportant_def set_important_def effective_important_def config_def
        nullish_or_def)

theorem markAsImportant_by_value_witness:
  "markAsImportant sample_collab sample_processor sample_padding (JBool True) =
     sample_padding\<lparr>st_important := True,
       st_property := [\<lparr>pr_name = [''padding''], pr_value = Some ''0.5rem'',
                        pr_comment = None, pr_important = True\<rparr>]\<rparr> \<and>
   \<not> truthy (JBool False) \<and>
   getNestedValue sample_collab (p_config sample_important) ''important'' = JBool True \<and>
   markAsImportant sample_collab sample_important sample_padding (JBool False) =
     sample_padding\<lparr>st_important := True,
       st_property := [\<lparr>pr_name = [''padding''], pr_value = Some ''0.5rem'',
                        pr_comment = None, pr_important = True\<rparr>]\<rparr> \<and>
   markAsImportant sample_collab sample_important sample_padding (JStr ''#x'') =
     sample_padding\<lparr>st_wrap := [''#x'']\<rparr> \<and>
   getNestedValue sample_collab (p_config sample_important_selector) ''important'' = JStr ''#app'' \<and>
   markAsImportant sample_collab sample_important_selector sample_padding (JBool False) =
     sample_padding\<lparr>st_wrap := [''#app'']\<rparr> \<and>
   nullish (getNestedValue sample_collab (p_config sample_processor) ''important'') \<and>
   markAsImportant sample_collab sample_processor sample_padding (JBool False) = sample_padding"
  using markAsImportant_by_value
          [of "JBool True" sample_collab sample_processor sample_padding "''#x''"]
        markAsImportant_by_value
          [of "JBool False" sample_collab sample_important sample_padding "''#x''"]
        markAsImportant_by_value
          [of "JStr ''#x''" sample_collab sample_important sample_padding "''#x''"]
        markAsImportant_by_value
          [of "JBool False" sample_collab sample_important_selector sample_padding "''#app''"]
        markAsImportant_by_value
          [of "JBool False" sample_collab sample_processor sample_padding "''#x''"]
  by (simp add: sample_collab_def sample_processor_def sample_important_def
        sample_important_selector_def sample_padding_def sample_style_def)

subsection \<open>addDynamic\<close>

lemma addDynamic_entry:
  "map_of (pl_dynamic (p_plugin (addDynamic E s key generator options))) key =
     Some (if in_object key (pl_dynamic (p_plugin s))
           then DynChained key generator (po_respectImportant (uOptions_of options))
           else DynFirst generator (po_respectImportant (uOptions_of options))
                  (case po_layer (uOptions_of options) of None \<Rightarrow> ''utilities'' | Some l \<Rightarrow> l)
                  (layerOrder E (case po_layer (uOptions_of options) of
                                   None \<Rightarrow> ''utilities'' | Some l \<Rightarrow> l) + 1))"
  by (simp add: addDynamic_def Let_def update_conv')

lemma addDynamic_registers: "key \<in> set (map fst (pl_dynamic (p_plugin (addDynamic E s key generator options))))"
  by (simp add: addDynamic_def Let_def dom_update)

lemma chained_self_overflows:
  "map_of (pl_dynamic (p_plugin s)) key = Some (DynChained key generator ri) \<Longrightarrow>
   call_dynamic E s n (DynChained key generator ri) u = Inl RangeError"
  by (induction n) (simp_all add: property_lookup_own)

text \<open>
  A first registration under a key that is not in the table, not even as the name of an
  inherited member, stores a generator that runs the registered one and gives the layer
  metadata to what it returns.
\<close>

lemma addDynamic_first_call:
  "\<not> in_object key (pl_dynamic (p_plugin s)) \<Longrightarrow>
   call_registered E (addDynamic E s key generator options) n key u =
     Inr (updateMeta_output E
            (case po_layer (uOptions_of options) of None \<Rightarrow> ''utilities'' | Some l \<Rightarrow> l)
            (layerOrder E (case po_layer (uOptions_of options) of
                             None \<Rightarrow> ''utilities'' | Some l \<Rightarrow> l) + 1)
            (generator (important_default (addDynamic E s key generator options)
                          (po_respectImportant (uOptions_of options))) u))"
  by (simp add: call_registered_def property_lookup_own [OF addDynamic_entry])

text \<open>
  C5. After two registrations under one key the entry of the key is the closure of the
  re-registration. Called on any utility, with any depth of stack, it reads the table at
  the key, finds itself there and calls it: the call ends in the RangeError of an
  exhausted stack, and neither the old nor the new generator is ever run.
\<close>

theorem addDynamic_twice_overflows:
  "call_registered E (addDynamic E (addDynamic E s key old options) key new options') n key u =
     Inl RangeError"
proof -
  let ?s1 = "addDynamic E s key old options"
  let ?s2 = "addDynamic E ?s1 key new options'"
  have "in_object key (pl_dynamic (p_plugin ?s1))"
    by (rule in_object_key [OF addDynamic_registers])
  then have m: "map_of (pl_dynamic (p_plugin ?s2)) key =
          Some (DynChained key new (po_respectImportant (uOptions_of options')))"
    by (simp add: addDynamic_entry)
  then show ?thesis
    by (simp add: call_registered_def property_lookup_own chained_self_overflows)
qed

subsection \<open>compile\<close>

text \<open>
  C1. When a call of \<^verbatim>\<open>compile\<close> returns, the same call on the Processor it left returns
  too, with the same class name: either undefined both times (no token succeeded) or the
  synthesized name, which is the caller's \<^verbatim>\<open>outputClassName\<close> when given and else the
  prefix followed by the hash of the input with its white space normalized. A first call
  with \<^verbatim>\<open>ignoreGenerated\<close> in which a token succeeded records the (non-empty) name; and
  whenever \<^verbatim>\<open>ignoreGenerated\<close> is set and the name is in the cache of emitted names, the
  second call returns empty success and ignored lists with that name and leaves the
  Processor as it is.
\<close>

theorem compile_twice_same_className:
  assumes "compile E s X prefix sc ig hI out = Inr (r1, s1)"
  shows "\<exists>r2 s2. compile E s1 X prefix sc ig hI out = Inr (r2, s2) \<and>
           r_className r2 = r_className r1 \<and>
           (r_className r1 = None \<or> r_className r1 = Some (synthesized_className E X prefix out)) \<and>
           synthesized_className E X prefix out =
             (case out of Some n \<Rightarrow> n | None \<Rightarrow> prefix @ hash E (normalize_classNames X)) \<and>
           (ig \<and> r_success r1 \<noteq> [] \<and> synthesized_className E X prefix out \<noteq> [] \<longrightarrow>
              synthesized_className E X prefix out \<in> set (c_classes (p_cache s1))) \<and>
           (ig \<and> synthesized_className E X prefix out \<in> set (c_classes (p_cache s1)) \<longrightarrow>
              r_success r2 = [] \<and> r_ignored r2 = [] \<and>
              r_className r2 = Some (synthesized_className E X prefix out) \<and> s2 = s1)"
proof -
  let ?cn = "synthesized_className E X prefix out"
  have n: "?cn = (case out of Some n \<Rightarrow> n | None \<Rightarrow> prefix @ hash E (normalize_classNames X))"
    by (simp add: synthesized_className_def)
  show ?thesis
  proof (cases "ig \<and> ?cn \<in> set (c_classes (p_cache s))")
    case True
    with assms have "s1 = s" "r_className r1 = Some ?cn"
      by (auto simp: compile_def Let_def)
    with True n show ?thesis
      by (auto simp: compile_def Let_def)
  next
    case False
    let ?ast = "ClassParser_parse E X (config E s ''separator'' (JStr '':'')) (c_variants (p_cache s))"
    from assms False obtain a where
      a: "compile_ast E s hI sc (''.'' @ ?cn) ?ast (empty_acc E) = Inr a"
      and r: "r_success r1 = success a"
             "r_className r1 = (if length (success a) > 0 then Some ?cn else None)"
      and s1: "s1 = (if ig \<and> length (success a) > 0 \<and> ?cn \<noteq> []
                     then s\<lparr>p_cache := (p_cache s)\<lparr>c_classes := c_classes (p_cache s) @ [?cn]\<rparr>\<rparr>
                     else s)"
      by (auto simp: compile_def Let_def split: sum.splits if_splits)
    show ?thesis
    proof (cases "ig \<and> length (success a) > 0 \<and> ?cn \<noteq> []")
      case True
      with s1 have m: "ig \<and> ?cn \<in> set (c_classes (p_cache s1))"
        by simp
      then have "compile E s1 X prefix sc ig hI out =
                   Inr (\<lparr>r_success = [], r_ignored = [], r_className = Some ?cn,
                          r_styleSheet = new_StyleSheet E\<rparr>, s1)"
        by (simp add: compile_def Let_def)
      with True r m n show ?thesis
        by simp
    next
      case f: False
      with s1 have "s1 = s"
        by simp
      with assms f r False n show ?thesis
        by auto
    qed
  qed
qed

theorem compile_twice_same_className_witness:
  "\<exists>r1 s1 r2 s2.
     compile sample_collab sample_processor ''p-2  m-1'' ''windi-'' False True None None = Inr (r1, s1) \<and>
     compile sample_collab s1 ''p-2  m-1'' ''windi-'' False True None None = Inr (r2, s2) \<and>
     r_success r1 = [''p-2''] \<and> r_className r1 = Some ''windi-7'' \<and>
     r_success r2 = [] \<and> r_ignored r2 = [] \<and> r_className r2 = Some ''windi-7''"
proof -
  have "compile_summary
          (compile sample_collab sample_processor ''p-2  m-1'' ''windi-'' False True None None) =
        Inr ([''p-2''], [''m-1''], Some ''windi-7'', [''windi-7''])"
    by code_simp
  then obtain r1 s1 where
    c: "compile sample_collab sample_processor ''p-2  m-1'' ''windi-'' False True None None = Inr (r1, s1)"
    and p: "r_success r1 = [''p-2'']" "r_className r1 = Some ''windi-7''"
    by (cases "compile sample_collab sample_processor ''p-2  m-1'' ''windi-'' False True None None")
       (auto simp: compile_summary_def)
  have n: "synthesized_className sample_collab ''p-2  m-1'' ''windi-'' None = ''windi-7''"
    by code_simp
  from compile_twice_same_className [OF c] p n c show ?thesis
    by auto
qed

text \<open>
  C9, as stated, fails on the path that C1 describes: with \<^verbatim>\<open>ignoreGenerated\<close> and the
  name already emitted, the success list is empty and the class name is not undefined.
\<close>

theorem compile_className_counterexample:
  "compile_summary (compile sample_collab sample_emitted ''p-2'' ''windi-'' False True None None) =
     Inr ([], [], Some ''windi-3'', [''windi-3''])"
  by code_simp

text \<open>
  C9, amended. When a call of \<^verbatim>\<open>compile\<close> is not cut short by the cache of emitted names
  (\<^verbatim>\<open>ignoreGenerated\<close> is false or the synthesized name is not in the cache) and no token
  succeeded, the class name it returns is undefined, and when a token succeeded it is the
  synthesized name. The cache of emitted names changes only when \<^verbatim>\<open>ignoreGenerated\<close> is
  true and at least one token succeeded, and then by the synthesized name appended.
\<close>

theorem compile_className_without_success:
  assumes "compile E s X prefix sc ig hI out = Inr (r, s')"
  shows "(\<not> (ig \<and> synthesized_className E X prefix out \<in> set (c_classes (p_cache s))) \<longrightarrow>
            (r_success r = [] \<longrightarrow> r_className r = None) \<and>
            (r_success r \<noteq> [] \<longrightarrow> r_className r = Some (synthesized_className E X prefix out))) \<and>
         (c_classes (p_cache s') \<noteq> c_classes (p_cache s) \<longrightarrow>
            ig \<and> r_success r \<noteq> [] \<and>
            c_classes (p_cache s') = c_classes (p_cache s) @ [synthesized_className E X prefix out])"
  using assms
  by (auto simp: compile_def Let_def split: if_splits sum.splits)

theorem compile_className_without_success_witness:
  "\<exists>r s' r2 s2.
     compile sample_collab sample_processor ''m-1 foo'' ''windi-'' False True None None = Inr (r, s') \<and>
     synthesized_className sample_collab ''m-1 foo'' ''windi-'' None
        \<notin> set (c_classes (p_cache sample_processor)) \<and>
     r_success r = [] \<and> r_ignored r = [''m-1'', ''foo''] \<and> r_className r = None \<and>
     c_classes (p_cache s') = c_classes (p_cache sample_processor) \<and>
     compile sample_collab sample_processor ''p-2'' ''windi-'' False True None None = Inr (r2, s2) \<and>
     r_success r2 = [''p-2''] \<and> r_className r2 = Some ''windi-3'' \<and>
     c_classes (p_cache s2) = c_classes (p_cache sample_processor) @ [''windi-3'']"
proof -
  have "compile_summary
          (compile sample_collab sample_processor ''m-1 foo'' ''windi-'' False True None None) =
        Inr ([], [''m-1'', ''foo''], None, [])"
    by code_simp
  then obtain r s' where
    c: "compile sample_collab sample_processor ''m-1 foo'' ''windi-'' False True None None = Inr (r, s')"
    and p: "r_success r = []" "r_ignored r = [''m-1'', ''foo'']" "c_classes (p_cache s') = []"
    by (cases "compile sample_collab sample_processor ''m-1 foo'' ''windi-'' False True None None")
       (auto simp: compile_summary_def)
  have "compile_summary
          (compile sample_collab sample_processor ''p-2'' ''windi-'' False True None None) =
        Inr ([''p-2''], [], Some ''windi-3'', [''windi-3''])"
    by code_simp
  then obtain r2 s2 where
    c2: "compile sample_collab sample_processor ''p-2'' ''windi-'' False True None None = Inr (r2, s2)"
    and p2: "r_success r2 = [''p-2'']" "c_classes (p_cache s2) = [''windi-3'']"
    by (cases "compile sample_collab sample_processor ''p-2'' ''windi-'' False True None None")
       (auto simp: compile_summary_def)
  have n: "c_classes (p_cache sample_processor) = []"
    by (simp add: sample_processor_def sample_cache_def)
  have m: "synthesized_className sample_collab ''p-2'' ''windi-'' None = ''windi-3''"
    by code_simp
  from compile_className_without_success [OF c] compile_className_without_success [OF c2]
       p p2 n m c c2
  show ?thesis
    by simp
qed

subsection \<open>resolveConfig: the variant table\<close>

lemma distinct_obj_spread:
  "distinct (map fst a) \<Longrightarrow> distinct (map fst (obj_spread a b))"
  unfolding obj_spread_def
  by (induction b arbitrary: a) (simp_all add: distinct_update)

lemma map_of_obj_spread:
  "distinct (map fst b) \<Longrightarrow> map_of (obj_spread a b) = map_of a ++ map_of b"
  unfolding obj_spread_def
proof (induction b arbitrary: a)
  case Nil
  then show ?case by simp
next
  case (Cons kv b)
  obtain k v where kv: "kv = (k, v)" by (cases kv)
  from Cons.prems kv have nk: "k \<notin> dom (map_of b)" and d: "distinct (map fst b)"
    by (simp_all add: dom_map_of_conv_image_fst)
  have "map_of (fold (\<lambda>kv. AList.update (fst kv) (snd kv)) (kv # b) a) =
        map_of (AList.update k v a) ++ map_of b"
    using Cons.IH [OF d] kv by simp
  also have "\<dots> = (map_of a)(k \<mapsto> v) ++ map_of b"
    by (simp only: update_conv')
  also have "\<dots> = (map_of a ++ map_of b)(k \<mapsto> v)"
    using nk by (rule map_add_upd_left)
  also have "\<dots> = map_of a ++ (map_of b)(k \<mapsto> v)"
    by (simp only: map_add_upd)
  also have "\<dots> = map_of a ++ map_of (kv # b)"
    using kv by simp
  finally show ?case .
qed

lemma resolveVariants_distinct: "distinct (map fst (Processor_resolveVariants E s None))"
  by (simp add: Processor_resolveVariants_def distinct_obj_spread split: prod.splits)

lemma resolveVariants_config:
  "p_config s = p_config t \<Longrightarrow> Processor_resolveVariants E s ty = Processor_resolveVariants E t ty"
  by (simp add: Processor_resolveVariants_def)

lemma addPluginCache_keeps:
  "addPluginCache s t key styles = Inr s' \<Longrightarrow>
   p_config s' = p_config s \<and> p_variants s' = p_variants s \<and> p_cache s' = p_cache s"
  by (auto simp: addPluginCache_def Let_def split: slot.splits)

lemma addBase_entries_keeps:
  "addBase_entries E es s = Inr s' \<Longrightarrow>
   p_config s' = p_config s \<and> p_variants s' = p_variants s \<and> p_cache s' = p_cache s"
  by (induction es arbitrary: s) (auto dest!: addPluginCache_keeps split: sum.splits)

lemma loadVariables_keeps:
  "loadVariables E s = Inr s' \<Longrightarrow>
   p_config s' = p_config s \<and> p_variants s' = p_variants s \<and> p_cache s' = p_cache s"
  by (auto simp: loadVariables_def addBase_def Let_def simp del: addBase_entries.simps
      dest!: addBase_entries_keeps split: if_splits)

lemma resolveConfig_finish_result:
  assumes "resolveConfig_finish E s1 = Inr s'"
  shows "p_config s' = resolveFunction E None (p_config s1)"
    and "p_variants s' = obj_spread (p_variants s1) (Processor_resolveVariants E s' None)"
    and "c_variants (p_cache s') = map fst (p_variants s')"
proof -
  let ?s2 = "s1\<lparr>p_config := resolveFunction E None (p_config s1)\<rparr>"
  let ?s3 = "?s2\<lparr>p_variants := obj_spread (p_variants ?s2) (Processor_resolveVariants E ?s2 None)\<rparr>"
  let ?s4 = "?s3\<lparr>p_cache := (p_cache ?s3)\<lparr>c_variants := map fst (p_variants ?s3)\<rparr>\<rparr>"
  from assms obtain s5 where l: "loadVariables E ?s4 = Inr s5"
    and s': "s' = (if truthy (jget (p_config s5) ''corePlugins'')
                   then s5\<lparr>p_plugin := (p_plugin s5)
                          \<lparr>pl_core := Some (core_of E (jget (p_config s5) ''corePlugins''))\<rparr>\<rparr>
                   else s5)"
    by (auto simp: resolveConfig_finish_def Let_def split: sum.splits)
  from loadVariables_keeps [OF l] s'
  have k: "p_config s' = p_config ?s4" "p_variants s' = p_variants ?s4" "p_cache s' = p_cache ?s4"
    by auto
  show "p_config s' = resolveFunction E None (p_config s1)"
    using k by simp
  then have "Processor_resolveVariants E s' None = Processor_resolveVariants E ?s2 None"
    by (intro resolveVariants_config) simp
  then show "p_variants s' = obj_spread (p_variants s1) (Processor_resolveVariants E s' None)"
    using k by simp
  show "c_variants (p_cache s') = map fst (p_variants s')"
    using k by simp
qed

text \<open>
  What \<^verbatim>\<open>resolveConfig\<close> establishes: the names that the parser is given as known variants
  are the names of the variant table.
\<close>

lemma resolveConfig_known_variants:
  "resolveConfig E n s cfg presets = Inr s' \<Longrightarrow> c_variants (p_cache s') = map fst (p_variants s')"
  by (auto simp: resolveConfig_def split: sum.splits dest: resolveConfig_finish_result(3))

text \<open>
  C4, as stated, fails: a plugin of the configuration registers a wrapper for \<^verbatim>\<open>hover\<close>,
  which the built-in resolver has too. When the plugins have been loaded the table holds
  the plugin's wrapper; when \<^verbatim>\<open>resolveConfig\<close> returns it holds the built-in one, which is
  another style.
\<close>

theorem resolveConfig_builtin_variant_counterexample:
  "variant_after ''hover''
     (resolveConfig_plugins sample_collab 0 initial_Processor sample_plugin_config (JObj [])) =
     Inr (Some sample_plugin_hover) \<and>
   variant_after ''hover''
     (resolveConfig sample_collab 0 initial_Processor sample_plugin_config (JObj [])) =
     Inr (Some sample_hover) \<and>
   sample_hover \<noteq> sample_plugin_hover"
  by code_simp

text \<open>
  C4, amended. When \<^verbatim>\<open>resolveConfig\<close> returns, every name that the built-in resolver
  gives a wrapper for the resolved configuration is mapped to that built-in wrapper in
  the variant table, also when a plugin registered the same name with \<^verbatim>\<open>addVariant\<close> during
  the resolution: line 243 spreads the recomputed built-in table over the table that the
  plugins left.
\<close>

theorem resolveConfig_builtin_variant_wins:
  assumes "resolveConfig E n s cfg presets = Inr s'"
  shows "map_of (Processor_resolveVariants E s' None) name = Some g \<longrightarrow>
         map_of (p_variants s') name = Some g"
proof -
  from assms obtain s1 where "resolveConfig_finish E s1 = Inr s'"
    by (auto simp: resolveConfig_def split: sum.splits)
  from resolveConfig_finish_result(2) [OF this]
  have "map_of (p_variants s') = map_of (p_variants s1) ++ map_of (Processor_resolveVariants E s' None)"
    by (metis map_of_obj_spread resolveVariants_distinct)
  then show ?thesis
    by (simp add: map_add_Some_iff)
qed

theorem resolveConfig_builtin_variant_wins_witness:
  "\<exists>s'. resolveConfig sample_collab 0 initial_Processor sample_plugin_config (JObj []) = Inr s' \<and>
     map_of (Processor_resolveVariants sample_collab s' None) ''hover'' = Some sample_hover \<and>
     map_of (p_variants s') ''hover'' = Some sample_hover \<and>
     map_of (p_variants s') ''hocus'' = Some sample_plugin_hover"
proof -
  have "variant_after ''hocus''
          (resolveConfig sample_collab 0 initial_Processor sample_plugin_config (JObj [])) =
        Inr (Some sample_plugin_hover)"
    by code_simp
  then obtain s' where
    c: "resolveConfig sample_collab 0 initial_Processor sample_plugin_config (JObj []) = Inr s'"
    and h: "map_of (p_variants s') ''hocus'' = Some sample_plugin_hover"
    by (cases "resolveConfig sample_collab 0 initial_Processor sample_plugin_config (JObj [])")
       (auto simp: variant_after_def)
  have b: "map_of (Processor_resolveVariants sample_collab s' None) ''hover'' = Some sample_hover"
    by (simp add: Processor_resolveVariants_def sample_collab_def obj_spread_def)
  from resolveConfig_builtin_variant_wins [OF c, of "''hover''" sample_hover] b c h
  show ?thesis
    by simp
qed

subsection \<open>resolveConfig: theme functions\<close>




lemma jset_JObj: "\<exists>kvs'. jset (JObj kvs) k v = JObj kvs'"
  by simp



























subsection \<open>interpret and compile: what is ignored\<close>

text \<open>
  Both traversals are the fold of one step over the list of the calls of \<^verbatim>\<open>_gStyle\<close> and
  \<^verbatim>\<open>_hIgnored\<close> that they make, in order: \<open>visits_c\<close> for \<^verbatim>\<open>compile\<close> and \<open>visits_gAst\<close>
  for \<^verbatim>\<open>interpret\<close>.
\<close>

lemma run_visits_append:
  "run_visits f (xs @ ys) a =
     (case run_visits f xs a of Inl e \<Rightarrow> Inl e | Inr a' \<Rightarrow> run_visits f ys a')"
  by (induction xs arbitrary: a) (simp_all split: sum.splits)

lemma hGroup_c_visits:
  "hGroup_item_c E s hI sc bs ov oi pv u a =
     run_visits (visit_c E s hI sc bs) (visits_item_c ov oi pv u) a"
  "hGroup_items_c E s hI sc bs ov oi pv us a =
     run_visits (visit_c E s hI sc bs) (visits_items_c ov oi pv us) a"
  by (induction E s hI sc bs ov oi pv u a and E s hI sc bs ov oi pv us a
      rule: hGroup_item_c_hGroup_items_c.induct)
     (simp_all add: run_visits_append Let_def split: sum.splits content.splits)

lemma compile_obj_visits:
  "compile_obj E s hI sc bs obj a = run_visits (visit_c E s hI sc bs) (visits_obj_c obj) a"
  by (simp add: compile_obj_def visits_obj_c_def hGroup_c_def hGroup_c_visits
      split: sum.splits content.splits)

lemma compile_ast_visits:
  "compile_ast E s hI sc bs ast a = run_visits (visit_c E s hI sc bs) (visits_c ast) a"
  by (induction ast arbitrary: a)
     (simp_all add: visits_c_def compile_obj_visits run_visits_append split: sum.splits)

lemma eval_i_visits:
  "visits_eval_i s n ov oi pv u = Some vs \<Longrightarrow>
   eval_i E s hI n ov oi pv u a = run_visits (visit_i E s hI) vs a"
  "visits_evals_i s n ov oi pv us = Some vs \<Longrightarrow>
   evals_i E s hI n ov oi pv us a = run_visits (visit_i E s hI) vs a"
  by (induction E s hI n ov oi pv u a and E s hI n ov oi pv us a arbitrary: vs and vs
      rule: eval_i_evals_i.induct)
     (auto simp: run_visits_append Let_def split: sum.splits content.splits option.splits nat.splits slot.splits)


lemma with_seen_Inr: "with_seen seen r = Inr (a, seen') \<longleftrightarrow> r = Inr a \<and> seen' = seen"
  by (cases r) (auto simp: with_seen_def)

lemma gAst_visits:
  "visits_gAst s ip n ast seen = Some (vs, seen') \<Longrightarrow>
   gAst E s hI ip n ast (a, seen) = with_seen seen' (run_visits (visit_i E s hI) vs a)"
proof (induction s ip n ast seen arbitrary: vs seen' a rule: visits_gAst.induct)
  case (1 s ip n seen)
  then show ?case by (simp add: with_seen_def)
next
  case (2 s ip n obj rest seen)
  show ?case
  proof (cases "ip \<and> raw obj \<in> set seen")
    case True
    with "2.prems" "2.IH"(1) show ?thesis by simp
  next
    case False
    let ?seen = "if ip then seen @ [raw obj] else seen"
    let ?F = "(if etype obj = TUtility then
             (case content obj of
                CStr c \<Rightarrow>
                  (if c \<noteq> []
                   then Some ([GStyle c (variants obj) (raw obj) (important obj)], ?seen)
                   else Some ([], ?seen))
              | _ \<Rightarrow> Some ([], ?seen))
           else if etype obj = TGroup then
             (case content obj of
                CList us \<Rightarrow>
                  map_option (\<lambda>vs. (vs, ?seen))
                    (visits_evals_i s n (variants obj) (important obj) [] us)
              | _ \<Rightarrow> Some ([], ?seen))
           else
             (case alias_of s (etype obj) (content obj) of
                Own als \<Rightarrow>
                  (case n of
                     0 \<Rightarrow> None
                   | Suc m \<Rightarrow> visits_gAst s ip m als ?seen)
              | Inherited \<Rightarrow> None
              | Absent \<Rightarrow> Some ([HIgnored (raw obj)], ?seen)))"
    have unf: "visits_gAst s ip n (obj # rest) seen =
        (case ?F of
           None \<Rightarrow> None
         | Some (ws, t) \<Rightarrow>
             (case visits_gAst s ip n rest t of
                None \<Rightarrow> None
              | Some (xs, t') \<Rightarrow> Some (ws @ xs, t')))"
      using False by (simp only: visits_gAst.simps Let_def if_False)
    obtain v1 s1 where h: "?F = Some (v1, s1)"
      using "2.prems" unfolding unf by (cases ?F) auto
    obtain v2 where r: "visits_gAst s ip n rest s1 = Some (v2, seen')" and vs: "vs = v1 @ v2"
      using "2.prems" unfolding unf h by (auto split: option.splits)
    let ?G = "(if etype obj = TUtility then
          (case content obj of
             CList us \<Rightarrow> Inr (a, ?seen)
           | CStr c \<Rightarrow>
               (if c \<noteq> [] then
                  with_seen ?seen
                    (gStyle_i E s hI c (variants obj) (raw obj) (important obj)
                       (config E s ''prefix'' JUndef) a)
                else Inr (a, ?seen))
           | CUndef \<Rightarrow> Inr (a, ?seen))
        else if etype obj = TGroup then with_seen ?seen (hGroup_i E s hI n obj [] a)
        else
          (case alias_of s (etype obj) (content obj) of
             Own als \<Rightarrow>
               (case n of
                  0 \<Rightarrow> Inl RangeError
                | Suc m \<Rightarrow> gAst E s hI ip m als (a, ?seen))
           | Inherited \<Rightarrow>
               (case n of
                  0 \<Rightarrow> Inl RangeError
                | Suc m \<Rightarrow> Inl TypeError)
           | Absent \<Rightarrow> Inr (hIgnored E hI (raw obj) a, ?seen)))"
    have unfg: "gAst E s hI ip n (obj # rest) (a, seen) =
        (case ?G of Inl e \<Rightarrow> Inl e | Inr st' \<Rightarrow> gAst E s hI ip n rest st')"
      using False by (simp only: gAst.simps Let_def if_False)
    have first: "?G = with_seen s1 (run_visits (visit_i E s hI) v1 a)"
    proof (cases "etype obj = TUtility")
      case True
      with h show ?thesis
        by (auto simp: with_seen_def split: content.splits if_splits sum.splits)
    next
      case nu: False
      show ?thesis
      proof (cases "etype obj = TGroup")
        case True
        with nu h show ?thesis
          by (auto simp: with_seen_def hGroup_i_def eval_i_visits(2) split: content.splits sum.splits)
      next
        case ng: False
        show ?thesis
        proof (cases "alias_of s (etype obj) (content obj)")
          case Absent
          with nu ng h show ?thesis
            by (auto simp: with_seen_def)
        next
          case Inherited
          with nu ng h show ?thesis
            by simp
        next
          case (Own als)
          with nu ng h obtain m where n: "n = Suc m" and v: "visits_gAst s ip m als ?seen = Some (v1, s1)"
            by (auto split: nat.splits)
          from "2.IH"(2) [OF False refl nu ng Own n v] nu ng Own n
          show ?thesis by simp
        qed
      qed
    qed
    have rest: "gAst E s hI ip n rest (a', s1) = with_seen seen' (run_visits (visit_i E s hI) v2 a')" for a'
      using "2.IH"(3) [OF False refl h refl r] .
    show ?thesis
      unfolding unfg first vs
      by (cases "run_visits (visit_i E s hI) v1 a") (simp_all add: with_seen_def run_visits_append rest)
  qed
qed


lemma hIgnored_member: "className \<in> set (ignored (hIgnored E hI className a))"
  by (auto simp: hIgnored_def Let_def split: option.splits)

lemma hIgnored_mono: "set (ignored a) \<subseteq> set (ignored (hIgnored E hI className a))"
  by (auto simp: hIgnored_def Let_def split: option.splits)

lemma wrap_and_add_mono:
  "wrap_and_add E s hI vs sel result a = Inr a' \<Longrightarrow> set (ignored a) \<subseteq> set (ignored a')"
  using hIgnored_mono [of a E hI sel]
  by (auto simp: wrap_and_add_def split: sum.splits option.splits)






lemma gStyle_i_ignored:
  assumes "gStyle_i E s hI base vs sel imp pfx a = Inr a'"
  shows "set (ignored a) \<subseteq> set (ignored a') \<and>
         (excluded E s sel \<or>
          (\<not> special_selector s vs sel \<and> Processor_extract E s base False pfx = Inr None) \<longrightarrow>
            sel \<in> set (ignored a'))"
proof (cases "excluded E s sel")
  case True
  with assms show ?thesis by (auto simp: gStyle_i_def)
next
  case ne: False
  show ?thesis
  proof (cases "special_selector s vs sel")
    case True
    with ne assms show ?thesis by (auto simp: gStyle_i_def add_special_def)
  next
    case ns: False
    show ?thesis
    proof (cases "Processor_extract E s base False pfx")
      case (Inl e)
      with ne ns assms show ?thesis by (simp add: gStyle_i_def)
    next
      case (Inr r)
      show ?thesis
      proof (cases r)
        case None
        with Inr ne ns assms hIgnored_member [of sel E hI a] hIgnored_mono [of a E hI sel]
        show ?thesis
          by (auto simp: gStyle_i_def)
      next
        case (Some result)
        with Inr ne ns assms show ?thesis
          by (auto simp: gStyle_i_def dest: wrap_and_add_mono)
      qed
    qed
  qed
qed

lemma gStyle_c_ignored:
  assumes "gStyle_c E s hI sc bs base vs sel imp a = Inr a'"
  shows "set (ignored a) \<subseteq> set (ignored a') \<and>
         (excluded E s sel \<or>
          (\<not> special_selector s vs sel \<and> Processor_extract E s base sc JUndef = Inr None) \<longrightarrow>
            sel \<in> set (ignored a'))"
proof (cases "excluded E s sel")
  case True
  with assms show ?thesis by (auto simp: gStyle_c_def)
next
  case ne: False
  show ?thesis
  proof (cases "special_selector s vs sel")
    case True
    with ne assms show ?thesis by (auto simp: gStyle_c_def add_special_def)
  next
    case ns: False
    show ?thesis
    proof (cases "Processor_extract E s base sc JUndef")
      case (Inl e)
      with ne ns assms show ?thesis by (simp add: gStyle_c_def)
    next
      case (Inr r)
      show ?thesis
      proof (cases r)
        case None
        with Inr ne ns assms hIgnored_member [of sel E hI a] hIgnored_mono [of a E hI sel]
        show ?thesis
          by (auto simp: gStyle_c_def)
      next
        case (Some result)
        with Inr ne ns assms show ?thesis
          by (auto simp: gStyle_c_def dest: wrap_and_add_mono)
      qed
    qed
  qed
qed

lemma visit_i_ignored:
  "visit_i E s hI v a = Inr a' \<Longrightarrow>
   set (ignored a) \<subseteq> set (ignored a') \<and> (declined_i E s v \<longrightarrow> visit_name v \<in> set (ignored a'))"
proof (cases v)
  case (GStyle c vs sel imp)
  assume "visit_i E s hI v a = Inr a'"
  with GStyle gStyle_i_ignored [of E s hI c vs sel imp "config E s ''prefix'' JUndef" a a']
  show ?thesis
    by (auto split: sum.splits option.splits)
next
  case (HIgnored r)
  assume "visit_i E s hI v a = Inr a'"
  with HIgnored hIgnored_member [of r E hI a] hIgnored_mono [of a E hI r] show ?thesis by auto
qed

lemma visit_c_ignored:
  "visit_c E s hI sc bs v a = Inr a' \<Longrightarrow>
   set (ignored a) \<subseteq> set (ignored a') \<and> (declined_c E s sc v \<longrightarrow> visit_name v \<in> set (ignored a'))"
proof (cases v)
  case (GStyle c vs sel imp)
  assume r: "visit_c E s hI sc bs v a = Inr a'"
  with GStyle obtain base where b: "removePrefix E s c = Inr base"
    and g: "gStyle_c E s hI sc bs base vs sel imp a = Inr a'"
    by (auto split: sum.splits)
  from gStyle_c_ignored [OF g] GStyle b show ?thesis
    by (auto split: sum.splits option.splits)
next
  case (HIgnored r)
  assume "visit_c E s hI sc bs v a = Inr a'"
  with HIgnored hIgnored_member [of r E hI a] hIgnored_mono [of a E hI r] show ?thesis by auto
qed


lemma run_visits_ignored:
  assumes step: "\<And>v a a'. f v a = Inr a' \<Longrightarrow>
            set (ignored a) \<subseteq> set (ignored a') \<and> (D v \<longrightarrow> visit_name v \<in> set (ignored a'))"
  shows "run_visits f vs a = Inr a' \<Longrightarrow>
         set (ignored a) \<subseteq> set (ignored a') \<and> (\<forall>v \<in> set vs. D v \<longrightarrow> visit_name v \<in> set (ignored a'))"
proof (induction vs arbitrary: a)
  case Nil
  then show ?case by simp
next
  case (Cons v vs)
  from Cons.prems obtain a1 where f: "f v a = Inr a1" and r: "run_visits f vs a1 = Inr a'"
    by (auto split: sum.splits)
  from step [OF f] Cons.IH [OF r] show ?case
    by auto
qed




lemma interpret_ignored:
  assumes c: "Processor_interpret E s n X ip hI = Inr (r, s')"
    and v: "interpret_visits E s n X ip = Some vs"
  shows "\<forall>v \<in> set vs. declined_i E s v \<longrightarrow> visit_name v \<in> set (i_ignored r)"
proof -
  let ?ast = "ClassParser_parse E X (config E s ''separator'' (JStr '':'')) (c_variants (p_cache s))"
  from v obtain seen' where g: "visits_gAst s ip n ?ast (c_utilities (p_cache s)) = Some (vs, seen')"
    by (auto simp: interpret_visits_def)
  from c obtain a seen where ga: "gAst E s hI ip n ?ast (empty_acc E, c_utilities (p_cache s)) = Inr (a, seen)"
    and r: "i_ignored r = ignored a"
    by (auto simp: Processor_interpret_def Let_def split: sum.splits)
  from gAst_visits [OF g, of E hI "empty_acc E"] ga
  have "with_seen seen' (run_visits (visit_i E s hI) vs (empty_acc E)) = Inr (a, seen)"
    by simp
  then have rv: "run_visits (visit_i E s hI) vs (empty_acc E) = Inr a"
    by (simp add: with_seen_Inr)
  show ?thesis
    using run_visits_ignored [where f = "visit_i E s hI" and D = "declined_i E s", OF _ rv]
      visit_i_ignored [of E s hI] r
    by auto
qed


lemma compile_ignored:
  assumes c: "compile E s X prefix sc ig hI out = Inr (r, s')"
  shows "\<forall>v \<in> set (compile_visits E s X prefix ig out). declined_c E s sc v \<longrightarrow>
           visit_name v \<in> set (r_ignored r)"
proof (cases "ig \<and> synthesized_className E X prefix out \<in> set (c_classes (p_cache s))")
  case True
  then show ?thesis by (simp add: compile_visits_def)
next
  case False
  let ?ast = "ClassParser_parse E X (config E s ''separator'' (JStr '':'')) (c_variants (p_cache s))"
  let ?bs = "''.'' @ synthesized_className E X prefix out"
  from c False obtain a where ca: "compile_ast E s hI sc ?bs ?ast (empty_acc E) = Inr a"
    and r: "r_ignored r = ignored a"
    by (auto simp: compile_def Let_def split: sum.splits)
  from ca have rv: "run_visits (visit_c E s hI sc ?bs) (visits_c ?ast) (empty_acc E) = Inr a"
    by (simp add: compile_ast_visits)
  have "\<forall>v \<in> set (visits_c ?ast). declined_c E s sc v \<longrightarrow> visit_name v \<in> set (ignored a)"
    using run_visits_ignored [where f = "visit_c E s hI sc ?bs" and D = "declined_c E s sc", OF _ rv]
      visit_c_ignored [of E s hI sc ?bs]
    by blast
  with r False show ?thesis by (simp add: compile_visits_def)
qed

lemma is_excluded_declined:
  "is_excluded E s v \<Longrightarrow> declined_i E s v"
  "is_excluded E s v \<Longrightarrow> declined_c E s sc v"
  by (cases v; simp)+

text \<open>An alias that names itself overflows the stack at any depth.\<close>

lemma cyclic_alias_overflows:
  "gAst E sample_cyclic hI False n [Element ''*a'' TAlias [] (CStr ''a'') False] (a, seen) =
     Inl RangeError"
proof (induction n arbitrary: a seen)
  case 0
  then show ?case
    by (simp add: alias_of_def property_lookup_def sample_cyclic_def)
next
  case (Suc n)
  have "alias_of sample_cyclic TAlias (CStr ''a'') =
          Own [Element ''*a'' TAlias [] (CStr ''a'') False]"
    by (simp add: alias_of_def property_lookup_def sample_cyclic_def)
  with Suc show ?case
    by simp
qed




text \<open>
  C3. A selector that matches the \<^verbatim>\<open>exclude\<close> patterns is tested before extraction: in both
  modes \<^verbatim>\<open>_gStyle\<close> appends it to the ignored list and changes neither the success list
  nor the style sheet, whatever \<^verbatim>\<open>extract\<close> would return for it; and when \<^verbatim>\<open>interpret\<close> or
  \<^verbatim>\<open>compile\<close> returns, the selector of every call with an excluded selector is a member of
  the returned \<^verbatim>\<open>ignored\<close> list.
\<close>

theorem excluded_selector_is_ignored:
  "(excluded E s selector \<longrightarrow>
      gStyle_i E s hI baseClass vs selector imp pfx a = Inr (a\<lparr>ignored := ignored a @ [selector]\<rparr>) \<and>
      gStyle_c E s hI sc bs baseClass vs selector imp a = Inr (a\<lparr>ignored := ignored a @ [selector]\<rparr>)) \<and>
   (Processor_interpret E s n X ip hI = Inr (r, s') \<and> interpret_visits E s n X ip = Some ws \<longrightarrow>
      (\<forall>v \<in> set ws. is_excluded E s v \<longrightarrow> visit_name v \<in> set (i_ignored r))) \<and>
   (compile E s X prefix sc ig hI out = Inr (r2, s2) \<longrightarrow>
      (\<forall>v \<in> set (compile_visits E s X prefix ig out). is_excluded E s v \<longrightarrow>
           visit_name v \<in> set (r_ignored r2)))"
  using interpret_ignored [of E s n X ip hI r s' ws] compile_ignored [of E s X prefix sc ig hI out r2 s2]
  by (auto simp: gStyle_i_def gStyle_c_def dest: is_excluded_declined)

theorem excluded_selector_is_ignored_witness:
  "\<exists>r s' r2 s2.
     excluded sample_collab sample_aliased ''m-1'' \<and>
     gStyle_i sample_collab sample_aliased None ''m-1'' [] ''m-1'' False JUndef (empty_acc sample_collab) =
       Inr ((empty_acc sample_collab)\<lparr>ignored := ignored (empty_acc sample_collab) @ [''m-1'']\<rparr>) \<and>
     gStyle_c sample_collab sample_aliased None False ''.windi-1'' ''m-1'' [] ''m-1'' False
         (empty_acc sample_collab) =
       Inr ((empty_acc sample_collab)\<lparr>ignored := ignored (empty_acc sample_collab) @ [''m-1'']\<rparr>) \<and>
     Processor_interpret sample_collab sample_aliased 1 ''*btn sm:hover:p-2'' False None = Inr (r, s') \<and>
     interpret_visits sample_collab sample_aliased 1 ''*btn sm:hover:p-2'' False =
       Some [GStyle ''p-2'' [''hover''] ''hover:p-2'' False, GStyle ''m-1'' [] ''m-1'' False,
             GStyle ''p-2'' [''sm'', ''hover''] ''sm:hover:p-2'' False] \<and>
     is_excluded sample_collab sample_aliased (GStyle ''m-1'' [] ''m-1'' False) \<and>
     ''m-1'' \<in> set (i_ignored r) \<and>
     compile sample_collab sample_aliased ''p-2 m-1'' ''windi-'' False False None None = Inr (r2, s2) \<and>
     GStyle ''m-1'' [] ''m-1'' False \<in> set (compile_visits sample_collab sample_aliased
        ''p-2 m-1'' ''windi-'' False None) \<and>
     ''m-1'' \<in> set (r_ignored r2)"
proof -
  let ?X = "''*btn sm:hover:p-2''"
  let ?Y = "''p-2 m-1''"
  let ?VS = "[GStyle ''p-2'' [''hover''] ''hover:p-2'' False, GStyle ''m-1'' [] ''m-1'' False,
             GStyle ''p-2'' [''sm'', ''hover''] ''sm:hover:p-2'' False]"
  have e: "excluded sample_collab sample_aliased ''m-1''"
    by code_simp
  have v: "interpret_visits sample_collab sample_aliased 1 ?X False = Some ?VS"
    by code_simp
  have "interpret_summary (Processor_interpret sample_collab sample_aliased 1 ?X False None) =
          Inr ([''hover:p-2'', ''sm:hover:p-2''], [''m-1''])"
    by code_simp
  then obtain r s' where
    i: "Processor_interpret sample_collab sample_aliased 1 ?X False None = Inr (r, s')"
    by (cases "Processor_interpret sample_collab sample_aliased 1 ?X False None")
       (auto simp: interpret_summary_def)
  have "compile_summary (compile sample_collab sample_aliased ?Y ''windi-'' False False None None) =
          Inr ([''p-2''], [''m-1''], Some ''windi-7'', [])"
    by code_simp
  then obtain r2 s2 where
    c: "compile sample_collab sample_aliased ?Y ''windi-'' False False None None = Inr (r2, s2)"
    by (cases "compile sample_collab sample_aliased ?Y ''windi-'' False False None None")
       (auto simp: compile_summary_def)
  have cv: "compile_visits sample_collab sample_aliased ?Y ''windi-'' False None =
              [GStyle ''p-2'' [] ''p-2'' False, GStyle ''m-1'' [] ''m-1'' False]"
    by code_simp
  note T = excluded_selector_is_ignored
             [where E = sample_collab and s = sample_aliased and selector = "''m-1''"
                and hI = None and baseClass = "''m-1''" and vs = "[]" and imp = False
                and pfx = JUndef and a = "empty_acc sample_collab" and sc = False
                and bs = "''.windi-1''" and n = 1 and X = ?X and ip = False and r = r and s' = s'
                and ws = ?VS and prefix = "''windi-''" and ig = False and out = None
                and ?r2.0 = r2 and ?s2.0 = s2]
  from T e have g:
    "gStyle_i sample_collab sample_aliased None ''m-1'' [] ''m-1'' False JUndef (empty_acc sample_collab) =
       Inr ((empty_acc sample_collab)\<lparr>ignored := ignored (empty_acc sample_collab) @ [''m-1'']\<rparr>)"
    "gStyle_c sample_collab sample_aliased None False ''.windi-1'' ''m-1'' [] ''m-1'' False
         (empty_acc sample_collab) =
       Inr ((empty_acc sample_collab)\<lparr>ignored := ignored (empty_acc sample_collab) @ [''m-1'']\<rparr>)"
    by blast+
  from T i v have ii: "\<forall>v \<in> set ?VS. is_excluded sample_collab sample_aliased v \<longrightarrow>
                        visit_name v \<in> set (i_ignored r)"
    by blast
  have x: "is_excluded sample_collab sample_aliased (GStyle ''m-1'' [] ''m-1'' False)"
    using e by simp
  have mem: "GStyle ''m-1'' [] ''m-1'' False \<in> set ?VS"
    by simp
  from bspec [OF ii mem] x
  have "visit_name (GStyle ''m-1'' [] ''m-1'' False) \<in> set (i_ignored r)"
    by (rule mp)
  then have m: "''m-1'' \<in> set (i_ignored r)"
    by simp
  note U = excluded_selector_is_ignored
             [where E = sample_collab and s = sample_aliased and selector = "''m-1''"
                and hI = None and sc = False and X = ?Y and prefix = "''windi-''" and ig = False
                and out = None and ?r2.0 = r2 and ?s2.0 = s2]
  from U c have cc: "\<forall>v \<in> set (compile_visits sample_collab sample_aliased ?Y ''windi-'' False None).
                       is_excluded sample_collab sample_aliased v \<longrightarrow> visit_name v \<in> set (r_ignored r2)"
    by blast
  have hm: "GStyle ''m-1'' [] ''m-1'' False \<in> set (compile_visits sample_collab sample_aliased ?Y ''windi-'' False None)"
    unfolding cv by simp
  from bspec [OF cc hm] x
  have "visit_name (GStyle ''m-1'' [] ''m-1'' False) \<in> set (r_ignored r2)"
    by (rule mp)
  then have m2: "''m-1'' \<in> set (r_ignored r2)"
    by simp
  from e g i v x m c hm m2 show ?thesis
    by blast
qed

end
